theory Spec2Isabelle
  imports Main "HOL-Library.Word"
begin

section \<open>Python values\<close>

text \<open>
  A Python \<open>str\<close> is a sequence of Unicode code points; slicing and \<open>len\<close> count code
  points, so a string is modelled as a list of code points. \<open>py\<close> turns a literal of
  the source into that representation.
\<close>

type_synonym pystr = "nat list"

definition py :: "string \<Rightarrow> pystr" where
  "py s = map of_char s"

text \<open>
  The values that \<open>response.json()\<close> can produce, which are also the values that flow
  through the article and digest dictionaries: \<open>None\<close>, \<open>bool\<close>, \<open>int\<close>, \<open>float\<close>
  (carried as its IEEE-754 bit pattern; the pipeline only ever tests a number for zero),
  \<open>str\<close>, \<open>list\<close> and \<open>dict\<close> with string keys (an association list in insertion
  order).
\<close>

datatype pyval =
    PNone
  | PBool bool
  | PInt int
  | PFloat "64 word"
  | PStr pystr
  | PList "pyval list"
  | PDict "(pystr \<times> pyval) list"

text \<open>
  Exceptions, all of them instances of Python's \<open>Exception\<close> class (the only ones an
  \<open>except Exception\<close> clause catches). \<open>LibraryError\<close> stands for any exception
  raised inside \<open>requests\<close> or \<open>transformers\<close>, tagged by a number.
\<close>

datatype exn =
    AttributeError
  | TypeError
  | KeyError
  | IndexError
  | RuntimeError
  | LibraryError nat

text \<open>Truth value testing (\<open>not v\<close>, \<open>v or w\<close>).\<close>

fun truthy :: "pyval \<Rightarrow> bool" where
  "truthy PNone = False"
| "truthy (PBool b) = b"
| "truthy (PInt i) = (i \<noteq> 0)"
| "truthy (PFloat w) = (take_bit 63 w \<noteq> 0)"
| "truthy (PStr s) = (s \<noteq> [])"
| "truthy (PList xs) = (xs \<noteq> [])"
| "truthy (PDict kvs) = (kvs \<noteq> [])"

definition py_or :: "pyval \<Rightarrow> pyval \<Rightarrow> pyval" where
  "py_or v w = (if truthy v then v else w)"

text \<open>\<open>d.get(k, default)\<close> on a value known to be a dict.\<close>

definition get_default :: "(pystr \<times> pyval) list \<Rightarrow> pystr \<Rightarrow> pyval \<Rightarrow> pyval" where
  "get_default kvs k d = (case map_of kvs k of None \<Rightarrow> d | Some v \<Rightarrow> v)"

text \<open>\<open>v.get(k, default)\<close> on any value: only a dict has the method.\<close>

fun attr_get :: "pyval \<Rightarrow> pystr \<Rightarrow> pyval \<Rightarrow> exn + pyval" where
  "attr_get (PDict kvs) k d = Inr (get_default kvs k d)"
| "attr_get _ k d = Inl AttributeError"

text \<open>
  \<open>v[:n]\<close>: strings and lists are sliced; a dict rejects the slice as a key (a
  \<open>TypeError\<close> before Python 3.12, a \<open>KeyError\<close> from 3.12 on; the model raises the
  former); anything else is not subscriptable.
\<close>

fun slice_to :: "nat \<Rightarrow> pyval \<Rightarrow> exn + pyval" where
  "slice_to n (PStr s) = Inr (PStr (take n s))"
| "slice_to n (PList xs) = Inr (PList (take n xs))"
| "slice_to n _ = Inl TypeError"

text \<open>\<open>for a in v\<close>: the sequence of values the loop variable takes.\<close>

fun iterate :: "pyval \<Rightarrow> exn + pyval list" where
  "iterate (PList xs) = Inr xs"
| "iterate (PStr s) = Inr (map (\<lambda>c. PStr [c]) s)"
| "iterate (PDict kvs) = Inr (map (\<lambda>kv. PStr (fst kv)) kvs)"
| "iterate _ = Inl TypeError"

text \<open>\<open>v[0]\<close> and \<open>v["summary_text"]\<close>, applied to what the summarizer returns.\<close>

fun index0 :: "pyval \<Rightarrow> exn + pyval" where
  "index0 (PList xs) = (case xs of [] \<Rightarrow> Inl IndexError | x # _ \<Rightarrow> Inr x)"
| "index0 (PStr s) = (case s of [] \<Rightarrow> Inl IndexError | c # _ \<Rightarrow> Inr (PStr [c]))"
| "index0 (PDict kvs) = Inl KeyError"
| "index0 _ = Inl TypeError"

fun subscript_key :: "pyval \<Rightarrow> pystr \<Rightarrow> exn + pyval" where
  "subscript_key (PDict kvs) k = (case map_of kvs k of None \<Rightarrow> Inl KeyError | Some v \<Rightarrow> Inr v)"
| "subscript_key _ k = Inl TypeError"

text \<open>
  \<open>str.split()\<close> without arguments: the maximal runs of non-whitespace characters,
  where whitespace is what \<open>str.isspace\<close> accepts.
\<close>

definition isspace :: "nat \<Rightarrow> bool" where
  "isspace c \<longleftrightarrow>
     (0x09 \<le> c \<and> c \<le> 0x0D) \<or> (0x1C \<le> c \<and> c \<le> 0x20) \<or> c = 0x85 \<or> c = 0xA0 \<or>
     c = 0x1680 \<or> (0x2000 \<le> c \<and> c \<le> 0x200A) \<or> c = 0x2028 \<or> c = 0x2029 \<or>
     c = 0x202F \<or> c = 0x205F \<or> c = 0x3000"

fun split_from :: "pystr \<Rightarrow> pystr \<Rightarrow> pystr list" where
  "split_from [] w = (if w = [] then [] else [w])"
| "split_from (c # cs) w =
     (if isspace c then (if w = [] then split_from cs [] else w # split_from cs [])
      else split_from cs (w @ [c]))"

definition split :: "pystr \<Rightarrow> pystr list" where
  "split s = split_from s []"

text \<open>
  Formatting inside an f-string (\<open>{v}\<close>). A string is inserted as it is; \<open>None\<close>,
  booleans and integers have a fixed spelling; the \<open>repr\<close> of floats and containers is
  a parameter.
\<close>

fun digits :: "nat \<Rightarrow> pystr" where
  "digits n = (if n < 10 then [48 + n] else digits (n div 10) @ [48 + n mod 10])"

definition str_int :: "int \<Rightarrow> pystr" where
  "str_int i = (if i < 0 then 45 # digits (nat (- i)) else digits (nat i))"

fun format :: "(pyval \<Rightarrow> pystr) \<Rightarrow> pyval \<Rightarrow> pystr" where
  "format r (PStr s) = s"
| "format r PNone = py ''None''"
| "format r (PBool b) = (if b then py ''True'' else py ''False'')"
| "format r (PInt i) = str_int i"
| "format r v = r v"

section \<open>The outside world\<close>

text \<open>
  The handle that \<open>transformers.pipeline\<close> returns is an opaque object, identified by a
  number.
\<close>

datatype summarizer = Summarizer nat

text \<open>
  Every call that leaves the process is recorded in a trace: the HTTP request with its
  timeout, the construction of the summarization pipeline with its three keyword
  arguments, and each invocation of the summarizer with the text and the generation
  bounds.
\<close>

datatype event =
    HttpGet pystr nat
  | PipelineLoad pystr pystr pystr
  | SummarizerCall summarizer pystr int int bool

text \<open>
  What \<open>requests.get(url, timeout=10)\<close> followed by \<open>response.json()\<close> can do: the
  request raises, or a response arrives with a status code and \<open>json()\<close> either raises
  or returns the parsed body.
\<close>

datatype http_outcome =
    RequestRaises exn
  | Response nat "exn + pyval"

text \<open>
  The external collaborators. Each may answer differently depending on everything that
  has happened before, so each takes the trace so far.
\<close>

record env =
  load_dotenv :: "(pystr \<rightharpoonup> pystr) \<Rightarrow> (pystr \<rightharpoonup> pystr)"
  requests_get :: "event list \<Rightarrow> pystr \<Rightarrow> nat \<Rightarrow> http_outcome"
  pipeline :: "event list \<Rightarrow> pystr \<Rightarrow> pystr \<Rightarrow> pystr \<Rightarrow> exn + summarizer"
  invoke :: "event list \<Rightarrow> summarizer \<Rightarrow> pystr \<Rightarrow> int \<Rightarrow> int \<Rightarrow> bool \<Rightarrow> exn + pyval"
  repr :: "pyval \<Rightarrow> pystr"

section \<open>Module state and start-up (pipeline.py, lines 15--24)\<close>

record pystate =
  API_KEY :: pystr
  summarizer_global :: "summarizer option"
  trace :: "event list"

definition MAX_ARTICLES :: int where
  "MAX_ARTICLES = 5"

text \<open>
  Importing the module: \<open>load_dotenv()\<close> updates the process environment,
  \<open>os.getenv\<close> reads the key, and a key that is \<open>None\<close> or empty raises.
\<close>

definition load_module :: "env \<Rightarrow> (pystr \<rightharpoonup> pystr) \<Rightarrow> exn + pystate" where
  "load_module e environ =
     (case load_dotenv e environ (py ''NEWS_API_KEY'') of
        None \<Rightarrow> Inl RuntimeError
      | Some k \<Rightarrow>
          if k = [] then Inl RuntimeError
          else Inr \<lparr>API_KEY = k, summarizer_global = None, trace = []\<rparr>)"

section \<open>The lazily constructed summarizer (lines 26--34)\<close>

definition get_summarizer :: "env \<Rightarrow> pystate \<Rightarrow> (exn + summarizer) \<times> pystate" where
  "get_summarizer e st =
     (case summarizer_global st of
        Some h \<Rightarrow> (Inr h, st)
      | None \<Rightarrow>
          (let st1 = st\<lparr>trace := trace st @
                 [PipelineLoad (py ''summarization'') (py ''facebook/bart-large-cnn'') (py ''pt'')]\<rparr>
           in case pipeline e (trace st) (py ''summarization'') (py ''facebook/bart-large-cnn'')
                     (py ''pt'') of
                Inl x \<Rightarrow> (Inl x, st1)
              | Inr h \<Rightarrow> (Inr h, st1\<lparr>summarizer_global := Some h\<rparr>)))"

section \<open>Fetching and normalizing (lines 37--68)\<close>

text \<open>The dictionary appended to \<open>articles\<close> has five fixed keys.\<close>

record article =
  art_title :: pyval
  art_text :: pyval
  art_source :: pyval
  art_date :: pyval
  art_url :: pyval

definition request_url :: "pystr \<Rightarrow> int \<Rightarrow> pystr \<Rightarrow> pystr" where
  "request_url query max_results key =
     py ''https://newsapi.org/v2/everything'' @ py ''?q='' @ query @ py ''&pageSize='' @
     str_int max_results @ py ''&language=en&apiKey='' @ key"

text \<open>The body of the \<open>for a in ...\<close> loop (lines 58--66), for one raw result.\<close>

fun normalize_article :: "pyval \<Rightarrow> exn + article" where
  "normalize_article (PDict a) =
     (let text = py_or (get_default a (py ''description'') PNone)
                       (get_default a (py ''content'') PNone);
          title = get_default a (py ''title'') PNone
      in case attr_get (get_default a (py ''source'') (PDict [])) (py ''name'') PNone of
           Inl x \<Rightarrow> Inl x
         | Inr source \<Rightarrow>
             (case slice_to 10 (py_or (get_default a (py ''publishedAt'') PNone) (PStr [])) of
                Inl x \<Rightarrow> Inl x
              | Inr date \<Rightarrow>
                  Inr \<lparr>art_title = title, art_text = text, art_source = source,
                       art_date = date, art_url = get_default a (py ''url'') PNone\<rparr>))"
| "normalize_article _ = Inl AttributeError"

fun normalize_loop :: "pyval list \<Rightarrow> article list \<Rightarrow> exn + article list" where
  "normalize_loop [] articles = Inr articles"
| "normalize_loop (a # rest) articles =
     (case normalize_article a of
        Inl x \<Rightarrow> Inl x
      | Inr r \<Rightarrow> normalize_loop rest (articles @ [r]))"

text \<open>Lines 53--68: what happens to the parsed body once the \<open>try\<close> block is left.\<close>

definition process_body :: "pyval \<Rightarrow> exn + article list" where
  "process_body data =
     (case attr_get data (py ''status'') PNone of
        Inl x \<Rightarrow> Inl x
      | Inr status \<Rightarrow>
          if status \<noteq> PStr (py ''ok'') then Inr []
          else (case attr_get data (py ''articles'') (PList []) of
                  Inl x \<Rightarrow> Inl x
                | Inr raw \<Rightarrow>
                    (case iterate raw of
                       Inl x \<Rightarrow> Inl x
                     | Inr items \<Rightarrow> normalize_loop items [])))"

definition fetch_articles ::
  "env \<Rightarrow> pystr \<Rightarrow> int \<Rightarrow> pystate \<Rightarrow> (exn + article list) \<times> pystate" where
  "fetch_articles e query max_results st =
     (let url = request_url query max_results (API_KEY st);
          st1 = st\<lparr>trace := trace st @ [HttpGet url 10]\<rparr>
      in case requests_get e (trace st) url 10 of
           RequestRaises x \<Rightarrow> (Inr [], st1)
         | Response code parsed \<Rightarrow>
             (case parsed of
                Inl x \<Rightarrow> (Inr [], st1)
              | Inr data \<Rightarrow> (process_body data, st1)))"

section \<open>Summarizing (lines 71--93)\<close>

definition insufficient_content :: pystr where
  "insufficient_content = py ''Summary unavailable due to insufficient article content.''"

definition processing_limits :: pystr where
  "processing_limits = py ''Summary could not be generated due to processing limits.''"

text \<open>Lines 84--93: the \<open>try\<close> block around the call and the indexing of its result.\<close>

definition run_summarizer :: "env \<Rightarrow> summarizer \<Rightarrow> pystr \<Rightarrow> pystate \<Rightarrow> pyval \<times> pystate" where
  "run_summarizer e h text st =
     (let st1 = st\<lparr>trace := trace st @ [SummarizerCall h text 120 40 False]\<rparr>
      in case invoke e (trace st) h text 120 40 False of
           Inl x \<Rightarrow> (PStr processing_limits, st1)
         | Inr summary \<Rightarrow>
             (case index0 summary of
                Inl x \<Rightarrow> (PStr processing_limits, st1)
              | Inr first \<Rightarrow>
                  (case subscript_key first (py ''summary_text'') of
                     Inl x \<Rightarrow> (PStr processing_limits, st1)
                   | Inr t \<Rightarrow> (t, st1))))"

text \<open>Lines 79--93, reached with a string of at least 40 words.\<close>

definition summarize_long :: "env \<Rightarrow> pystr \<Rightarrow> pystate \<Rightarrow> (exn + pyval) \<times> pystate" where
  "summarize_long e s st =
     (let text = take 3000 s
      in case get_summarizer e st of
           (Inl x, st1) \<Rightarrow> (Inl x, st1)
         | (Inr h, st1) \<Rightarrow>
             (case run_summarizer e h text st1 of (r, st2) \<Rightarrow> (Inr r, st2)))"

text \<open>
  Line 76 is \<open>not text or len(text.split()) < 40\<close>: a falsy value of any type takes the
  placeholder branch, a truthy value that is not a string has no \<open>split\<close>.
\<close>

definition summarize_article :: "env \<Rightarrow> pyval \<Rightarrow> pystate \<Rightarrow> (exn + pyval) \<times> pystate" where
  "summarize_article e text st =
     (case text of
        PStr s \<Rightarrow>
          if s = [] \<or> int (length (split s)) < 40 then (Inr (PStr insufficient_content), st)
          else summarize_long e s st
      | _ \<Rightarrow>
          if truthy text then (Inl AttributeError, st)
          else (Inr (PStr insufficient_content), st))"

section \<open>Why it matters (lines 96--103)\<close>

definition explain_importance :: "env \<Rightarrow> pyval \<Rightarrow> pystr" where
  "explain_importance e title =
     py ''This development around '' @ [0x27] @ format (repr e) title @ [0x27] @
     py '' may influence public opinion, '' @
     py ''market trends, or upcoming decisions related to this topic.''"

section \<open>The digest (lines 106--129)\<close>

record digest_entry =
  title :: pyval
  source :: pyval
  date :: pyval
  summary :: pyval
  why_it_matters :: pystr
  url :: pyval

fun digest_loop ::
  "env \<Rightarrow> article list \<Rightarrow> digest_entry list \<Rightarrow> pystate \<Rightarrow> (exn + digest_entry list) \<times> pystate"
where
  "digest_loop e [] digest st = (Inr digest, st)"
| "digest_loop e (art # rest) digest st =
     (case summarize_article e (art_text art) st of
        (Inl x, st1) \<Rightarrow> (Inl x, st1)
      | (Inr s, st1) \<Rightarrow>
          digest_loop e rest
            (digest @ [\<lparr>title = art_title art, source = art_source art, date = art_date art,
                        summary = s, why_it_matters = explain_importance e (art_title art),
                        url = art_url art\<rparr>]) st1)"

definition generate_news_digest ::
  "env \<Rightarrow> pystr \<Rightarrow> pystate \<Rightarrow> (exn + digest_entry list) \<times> pystate" where
  "generate_news_digest e user_query st =
     (case fetch_articles e user_query MAX_ARTICLES st of
        (Inl x, st1) \<Rightarrow> (Inl x, st1)
      | (Inr articles, st1) \<Rightarrow> digest_loop e articles [] st1)"

section \<open>A client of the module\<close>

text \<open>
  A client (app.py, lines 7 and 42; the \<open>__main__\<close> block, line 136) imports the module
  and then calls \<open>generate_news_digest\<close>. The second component is the trace of the
  external calls made on the way.
\<close>

definition import_and_digest ::
  "env \<Rightarrow> (pystr \<rightharpoonup> pystr) \<Rightarrow> pystr \<Rightarrow> (exn + digest_entry list) \<times> event list" where
  "import_and_digest e environ user_query =
     (case load_module e environ of
        Inl x \<Rightarrow> (Inl x, [])
      | Inr st \<Rightarrow> (case generate_news_digest e user_query st of (r, st1) \<Rightarrow> (r, trace st1)))"

section \<open>Concrete worlds and inputs\<close>

text \<open>A world in which every external call raises, and a freshly loaded module.\<close>

definition failing_env :: env where
  "failing_env =
     \<lparr>load_dotenv = (\<lambda>environ. environ),
      requests_get = (\<lambda>tr u timeout. RequestRaises (LibraryError 0)),
      pipeline = (\<lambda>tr task model framework. Inl (LibraryError 1)),
      invoke = (\<lambda>tr h text max_length min_length do_sample. Inl (LibraryError 2)),
      repr = (\<lambda>v. [])\<rparr>"

definition fresh_state :: pystate where
  "fresh_state = \<lparr>API_KEY = py ''secret'', summarizer_global = None, trace = []\<rparr>"


text \<open>Worlds built from it: the search endpoint answers; the pipeline can be constructed
  (its invocation still raises); the summarizer returns a summary.\<close>

definition answering :: "nat \<Rightarrow> exn + pyval \<Rightarrow> env" where
  "answering code parsed = failing_env\<lparr>requests_get := (\<lambda>tr u timeout. Response code parsed)\<rparr>"

definition constructing :: "env \<Rightarrow> env" where
  "constructing e = e\<lparr>pipeline := (\<lambda>tr task model framework. Inr (Summarizer 0))\<rparr>"

definition summarizing :: "env \<Rightarrow> env" where
  "summarizing e =
     e\<lparr>pipeline := (\<lambda>tr task model framework. Inr (Summarizer 0)),
       invoke := (\<lambda>tr h text max_length min_length do_sample.
                    Inr (PList [PDict [(py ''summary_text'', PStr (py ''A summary.''))]]))\<rparr>"

text \<open>A raw result as the provider sends it, and a response body that carries a list of
  them; the body of a provider-reported failure.\<close>

definition raw_fields :: "string \<Rightarrow> pystr \<Rightarrow> (pystr \<times> pyval) list" where
  "raw_fields t d =
     [(py ''source'', PDict [(py ''id'', PNone), (py ''name'', PStr (py ''BBC News''))]),
      (py ''title'', PStr (py t)),
      (py ''description'', PStr d),
      (py ''url'', PStr (py ''https://example.com/a'')),
      (py ''publishedAt'', PStr (py ''2025-10-01T08:30:00Z'')),
      (py ''content'', PStr (py ''Full content''))]"

definition raw_article :: "string \<Rightarrow> pystr \<Rightarrow> pyval" where
  "raw_article t d = PDict (raw_fields t d)"

definition ok_fields :: "pyval list \<Rightarrow> (pystr \<times> pyval) list" where
  "ok_fields items =
     [(py ''status'', PStr (py ''ok'')), (py ''totalResults'', PInt (int (length items))),
      (py ''articles'', PList items)]"

definition ok_body :: "pyval list \<Rightarrow> pyval" where
  "ok_body items = PDict (ok_fields items)"

definition error_fields :: "(pystr \<times> pyval) list" where
  "error_fields =
     [(py ''status'', PStr (py ''error'')), (py ''code'', PStr (py ''apiKeyInvalid'')),
      (py ''message'', PStr (py ''Your API key is invalid.''))]"

text \<open>What the pipeline makes of such a raw result: the normalized article, and the digest
  entry when the description is too short to be summarized or the summarizer fails.\<close>

definition normalized :: "string \<Rightarrow> pystr \<Rightarrow> article" where
  "normalized t d =
     \<lparr>art_title = PStr (py t), art_text = PStr d, art_source = PStr (py ''BBC News''),
      art_date = PStr (py ''2025-10-01''), art_url = PStr (py ''https://example.com/a'')\<rparr>"

definition entry_with :: "string \<Rightarrow> pystr \<Rightarrow> digest_entry" where
  "entry_with t s =
     \<lparr>title = PStr (py t), source = PStr (py ''BBC News''), date = PStr (py ''2025-10-01''),
      summary = PStr s,
      why_it_matters = explain_importance failing_env (PStr (py t)),
      url = PStr (py ''https://example.com/a'')\<rparr>"

text \<open>A text of \<open>n\<close> words and \<open>5 * n\<close> characters.\<close>

definition long_text :: "nat \<Rightarrow> pystr" where
  "long_text n = concat (replicate n (py ''word ''))"

definition six_titles :: "string list" where
  "six_titles = [''A'', ''B'', ''C'', ''D'', ''E'', ''F'']"

definition six_raw :: "pyval list" where
  "six_raw = map (\<lambda>t. raw_article t (long_text 40)) six_titles"

definition six_normalized :: "article list" where
  "six_normalized = map (\<lambda>t. normalized t (long_text 40)) six_titles"

definition six_entries :: "digest_entry list" where
  "six_entries = map (\<lambda>t. entry_with t (py ''A summary.'')) six_titles"

section \<open>Predicates of the specification\<close>

text \<open>
  The outcomes of the request for which the specification promises an empty result: a
  transport error, a body that is not JSON, a JSON object whose \<open>status\<close> is not
  \<open>"ok"\<close>, a JSON object without results.
\<close>

fun yields_nothing :: "http_outcome \<Rightarrow> bool" where
  "yields_nothing (RequestRaises x) = True"
| "yields_nothing (Response code (Inl x)) = True"
| "yields_nothing (Response code (Inr (PDict body))) =
     (get_default body (py ''status'') PNone \<noteq> PStr (py ''ok'') \<or>
      get_default body (py ''articles'') (PList []) = PList [])"
| "yields_nothing (Response code (Inr v)) = False"

text \<open>A body text as the specification has it: a string, or absent.\<close>

fun summarizable :: "pyval \<Rightarrow> bool" where
  "summarizable (PStr s) = True"
| "summarizable v = (\<not> truthy v)"

text \<open>
  A failure of the summarization call: the call raises, or its result has no
  \<open>[0]["summary_text"]\<close>.
\<close>

definition call_fails :: "exn + pyval \<Rightarrow> bool" where
  "call_fails r =
     (case r of
        Inl x \<Rightarrow> True
      | Inr returned \<Rightarrow>
          (case index0 returned of
             Inl x \<Rightarrow> True
           | Inr first \<Rightarrow>
               (case subscript_key first (py ''summary_text'') of
                  Inl x \<Rightarrow> True
                | Inr t \<Rightarrow> False)))"

text \<open>The construction of the summarization pipeline succeeds whenever it is attempted.\<close>

definition pipeline_never_fails :: "env \<Rightarrow> bool" where
  "pipeline_never_fails e \<longleftrightarrow>
     (\<forall>tr. \<exists>h. pipeline e tr (py ''summarization'') (py ''facebook/bart-large-cnn'') (py ''pt'') =
        Inr h)"

section \<open>Facts about the loops\<close>

lemma normalize_loop_all2:
  "normalize_loop items acc = Inr rs \<Longrightarrow>
     \<exists>new. rs = acc @ new \<and> list_all2 (\<lambda>a r. normalize_article a = Inr r) items new"
proof (induction items arbitrary: acc)
  case Nil
  then show ?case by simp
next
  case (Cons a rest)
  then obtain r where r: "normalize_article a = Inr r"
    and rec: "normalize_loop rest (acc @ [r]) = Inr rs"
    by (auto split: sum.splits)
  from Cons.IH [OF rec] obtain new where "rs = (acc @ [r]) @ new"
    and "list_all2 (\<lambda>a r. normalize_article a = Inr r) rest new" by blast
  with r show ?case by (intro exI [of _ "r # new"]) simp
qed

lemma normalize_loop_pointwise:
  "normalize_loop items [] = Inr rs \<Longrightarrow> list_all2 (\<lambda>a r. normalize_article a = Inr r) items rs"
  by (drule normalize_loop_all2) simp

lemma digest_loop_all2:
  "digest_loop e arts acc st = (Inr d, st') \<Longrightarrow>
     \<exists>new. d = acc @ new \<and>
       list_all2 (\<lambda>a en. title en = art_title a \<and> source en = art_source a \<and>
                   date en = art_date a \<and> url en = art_url a \<and>
                   why_it_matters en = explain_importance e (art_title a)) arts new"
proof (induction arts arbitrary: acc st)
  case Nil
  then show ?case by simp
next
  case (Cons art rest)
  then obtain s st1 where
    rec: "digest_loop e rest
            (acc @ [\<lparr>title = art_title art, source = art_source art, date = art_date art,
                     summary = s, why_it_matters = explain_importance e (art_title art),
                     url = art_url art\<rparr>]) st1 = (Inr d, st')"
    by (auto split: sum.splits prod.splits)
  from Cons.IH [OF rec] show ?case by (auto simp: list_all2_Cons1)
qed

lemma digest_loop_states:
  "digest_loop e arts acc st = (Inr d, st') \<Longrightarrow>
     \<exists>new states. d = acc @ new \<and> length new = length arts \<and>
       length states = Suc (length arts) \<and> states ! 0 = st \<and> states ! length arts = st' \<and>
       (\<forall>i < length arts.
          summarize_article e (art_text (arts ! i)) (states ! i) =
            (Inr (summary (new ! i)), states ! Suc i))"
proof (induction arts arbitrary: acc st)
  case Nil
  then show ?case by (intro exI [of _ "[]"] exI [of _ "[st]"]) simp
next
  case (Cons art rest)
  let ?entry = "\<lambda>s. \<lparr>title = art_title art, source = art_source art, date = art_date art,
                     summary = s, why_it_matters = explain_importance e (art_title art),
                     url = art_url art\<rparr>"
  from Cons.prems obtain s st1 where
    first: "summarize_article e (art_text art) st = (Inr s, st1)" and
    rec: "digest_loop e rest (acc @ [?entry s]) st1 = (Inr d, st')"
    by (auto split: sum.splits prod.splits)
  from Cons.IH [OF rec] obtain new states where
    d: "d = (acc @ [?entry s]) @ new" and ln: "length new = length rest" and
    ls: "length states = Suc (length rest)" and s0: "states ! 0 = st1" and
    sl: "states ! length rest = st'" and
    step: "\<forall>i < length rest.
          summarize_article e (art_text (rest ! i)) (states ! i) =
            (Inr (summary (new ! i)), states ! Suc i)"
    by blast
  have "\<forall>i < length (art # rest).
          summarize_article e (art_text ((art # rest) ! i)) ((st # states) ! i) =
            (Inr (summary ((?entry s # new) ! i)), (st # states) ! Suc i)"
  proof (intro allI impI)
    fix i
    assume "i < length (art # rest)"
    then show "summarize_article e (art_text ((art # rest) ! i)) ((st # states) ! i) =
            (Inr (summary ((?entry s # new) ! i)), (st # states) ! Suc i)"
      using first s0 step by (cases i) simp_all
  qed
  with d ln ls sl show ?case
    by (intro exI [of _ "?entry s # new"] exI [of _ "st # states"]) simp
qed

lemma digest_of_fetch:
  assumes "fetch_articles e q MAX_ARTICLES st = (Inr articles, st1)"
      and "generate_news_digest e q st = (Inr digest, st2)"
  shows "list_all2 (\<lambda>a en. title en = art_title a \<and> source en = art_source a \<and>
                   date en = art_date a \<and> url en = art_url a \<and>
                   why_it_matters en = explain_importance e (art_title a)) articles digest"
proof -
  from assms have "digest_loop e articles [] st1 = (Inr digest, st2)"
    by (simp add: generate_news_digest_def)
  from digest_loop_all2 [OF this] show ?thesis by simp
qed

lemma all2_map_eq: "list_all2 (\<lambda>a b. g b = f a) xs ys \<Longrightarrow> map g ys = map f xs"
  by (induction rule: list_all2_induct) simp_all

lemma fetch_response:
  "requests_get e (trace st) (request_url q n (API_KEY st)) 10 = Response code (Inr data) \<Longrightarrow>
   fetch_articles e q n st =
     (process_body data, st\<lparr>trace := trace st @ [HttpGet (request_url q n (API_KEY st)) 10]\<rparr>)"
  by (simp add: fetch_articles_def Let_def)

lemma process_ok_body:
  "get_default body (py ''status'') PNone = PStr (py ''ok'') \<Longrightarrow>
   get_default body (py ''articles'') (PList []) = PList items \<Longrightarrow>
   process_body (PDict body) = normalize_loop items []"
  by (simp add: process_body_def)

section \<open>Facts about the summarizer\<close>

lemma split_Nil: "split [] = []"
  by (simp add: split_def)

lemma summarize_article_long:
  "40 \<le> length (split s) \<Longrightarrow> summarize_article e (PStr s) st = summarize_long e s st"
  by (auto simp: summarize_article_def split_Nil)

lemma run_summarizer_state:
  "snd (run_summarizer e h t st) = st\<lparr>trace := trace st @ [SummarizerCall h t 120 40 False]\<rparr>"
  by (simp add: run_summarizer_def Let_def split: sum.splits)

lemma run_summarizer_fails:
  "call_fails (invoke e (trace st) h t 120 40 False) \<Longrightarrow>
   fst (run_summarizer e h t st) = PStr processing_limits"
  by (simp add: run_summarizer_def call_fails_def Let_def split: sum.splits)

lemma summarize_long_obtained:
  "get_summarizer e st = (Inr h, st1) \<Longrightarrow>
   summarize_long e s st =
     (Inr (fst (run_summarizer e h (take 3000 s) st1)),
      st1\<lparr>trace := trace st1 @ [SummarizerCall h (take 3000 s) 120 40 False]\<rparr>)"
  using run_summarizer_state [of e h "take 3000 s" st1]
  by (cases "run_summarizer e h (take 3000 s) st1") (simp add: summarize_long_def Let_def)

lemma summarize_long_raises:
  "get_summarizer e st = (Inl x, st1) \<Longrightarrow> summarize_long e s st = (Inl x, st1)"
  by (simp add: summarize_long_def Let_def)

lemma get_summarizer_trace:
  "get_summarizer e st = (r, st1) \<Longrightarrow>
   length (trace st) \<le> length (trace st1) \<and>
   (summarizer_global st = None \<longrightarrow> length (trace st) < length (trace st1))"
  by (auto simp: get_summarizer_def Let_def split: option.splits sum.splits)

lemma get_summarizer_available:
  "summarizer_global st \<noteq> None \<or> pipeline_never_fails e \<Longrightarrow>
   \<exists>h st1. get_summarizer e st = (Inr h, st1) \<and> summarizer_global st1 \<noteq> None"
proof (cases "summarizer_global st")
  case None
  assume "summarizer_global st \<noteq> None \<or> pipeline_never_fails e"
  with None obtain h where
    "pipeline e (trace st) (py ''summarization'') (py ''facebook/bart-large-cnn'') (py ''pt'') = Inr h"
    unfolding pipeline_never_fails_def by blast
  with None show ?thesis by (simp add: get_summarizer_def Let_def)
next
  case (Some h)
  then show ?thesis by (simp add: get_summarizer_def)
qed

lemma summarize_article_returns:
  assumes "summarizer_global st \<noteq> None \<or> pipeline_never_fails e"
      and "summarizable text"
  shows "\<exists>r st1. summarize_article e text st = (Inr r, st1) \<and>
           (summarizer_global st1 \<noteq> None \<or> pipeline_never_fails e)"
proof (cases "text")
  case (PStr s)
  show ?thesis
  proof (cases "s = [] \<or> int (length (split s)) < 40")
    case True
    with PStr assms(1) show ?thesis by (simp add: summarize_article_def)
  next
    case False
    from get_summarizer_available [OF assms(1)] obtain h st1
      where "get_summarizer e st = (Inr h, st1)" and "summarizer_global st1 \<noteq> None" by blast
    with PStr False show ?thesis
      by (simp add: summarize_article_def summarize_long_obtained)
  qed
qed (insert assms, simp_all add: summarize_article_def)

lemma digest_loop_returns:
  "summarizer_global st \<noteq> None \<or> pipeline_never_fails e \<Longrightarrow>
   \<forall>a \<in> set arts. summarizable (art_text a) \<Longrightarrow>
   \<exists>d st1. digest_loop e arts acc st = (Inr d, st1) \<and> length d = length acc + length arts"
proof (induction arts arbitrary: acc st)
  case Nil
  then show ?case by simp
next
  case (Cons art rest)
  from summarize_article_returns [OF Cons.prems(1), of "art_text art"] Cons.prems(2)
  obtain r st1 where r: "summarize_article e (art_text art) st = (Inr r, st1)"
    and av: "summarizer_global st1 \<noteq> None \<or> pipeline_never_fails e" by auto
  from Cons.prems(2) have rest: "\<forall>a \<in> set rest. summarizable (art_text a)" by simp
  from Cons.IH [OF av rest] r show ?case by (simp del: ex_simps) fastforce
qed

lemma fetch_keeps_summarizer:
  "fetch_articles e q n st = (r, st1) \<Longrightarrow> summarizer_global st1 = summarizer_global st"
  by (auto simp: fetch_articles_def Let_def split: http_outcome.splits sum.splits)

section \<open>Facts about the concrete inputs\<close>

lemma requests_get_answering [simp]:
  "requests_get (answering code parsed) tr u t = Response code parsed"
  "requests_get (constructing e) = requests_get e"
  "requests_get (summarizing e) = requests_get e"
  by (simp_all add: answering_def constructing_def summarizing_def)

lemma ok_fields_get [simp]:
  "get_default (ok_fields items) (py ''status'') PNone = PStr (py ''ok'')"
  "get_default (ok_fields items) (py ''articles'') (PList []) = PList items"
  by (simp_all add: ok_fields_def get_default_def py_def)

lemma normalize_raw:
  "d \<noteq> [] \<Longrightarrow> normalize_article (raw_article t d) = Inr (normalized t d)"
  by (simp add: raw_article_def raw_fields_def normalized_def py_def get_default_def py_or_def)

lemma two_words: "length (split (py ''Too short'')) = 2"
  by (simp add: split_def py_def isspace_def)

lemma too_short_nonempty: "py ''Too short'' \<noteq> []"
  by (simp add: py_def)

lemma summarize_too_short:
  "summarize_article e (PStr (py ''Too short'')) st = (Inr (PStr insufficient_content), st)"
  by (simp add: summarize_article_def two_words)

lemma split_from_word: "split_from (py ''word '' @ rest) [] = py ''word'' # split_from rest []"
  by (simp add: py_def isspace_def)

lemma split_long_text: "length (split (long_text n)) = n"
  unfolding split_def long_text_def by (induction n) (simp_all add: split_from_word)

lemma length_long_text: "length (long_text n) = 5 * n"
  unfolding long_text_def by (induction n) (simp_all add: py_def)

lemma long_text_nonempty: "0 < n \<Longrightarrow> long_text n \<noteq> []"
  using length_long_text [of n] by auto

lemma normalize_loop_raws:
  "d \<noteq> [] \<Longrightarrow>
   normalize_loop (map (\<lambda>t. raw_article t d) ts) acc = Inr (acc @ map (\<lambda>t. normalized t d) ts)"
  by (induction ts arbitrary: acc) (simp_all add: normalize_raw)

lemma fetch_raws:
  assumes "d \<noteq> []"
      and "requests_get e (trace st) (request_url q n (API_KEY st)) 10 =
             Response code (Inr (ok_body (map (\<lambda>t. raw_article t d) ts)))"
  shows "fetch_articles e q n st =
           (Inr (map (\<lambda>t. normalized t d) ts),
            st\<lparr>trace := trace st @ [HttpGet (request_url q n (API_KEY st)) 10]\<rparr>)"
  using assms by (simp add: fetch_response ok_body_def process_ok_body normalize_loop_raws)

lemma digest_loop_short:
  "digest_loop e (map (\<lambda>t. normalized t (py ''Too short'')) ts) acc st =
     (Inr (acc @ map (\<lambda>t. entry_with t insufficient_content) ts), st)"
  by (induction ts arbitrary: acc)
     (simp_all add: summarize_too_short normalized_def entry_with_def explain_importance_def)

lemma digest_raws_short:
  assumes "requests_get e (trace st) (request_url q MAX_ARTICLES (API_KEY st)) 10 =
             Response code (Inr (ok_body (map (\<lambda>t. raw_article t (py ''Too short'')) ts)))"
  shows "generate_news_digest e q st =
           (Inr (map (\<lambda>t. entry_with t insufficient_content) ts),
            st\<lparr>trace := trace st @ [HttpGet (request_url q MAX_ARTICLES (API_KEY st)) 10]\<rparr>)"
  using fetch_raws [OF too_short_nonempty assms]
  by (simp add: generate_news_digest_def digest_loop_short)

lemma url_ai:
  "request_url (py ''ai'') MAX_ARTICLES (API_KEY fresh_state) =
     py ''https://newsapi.org/v2/everything?q=ai&pageSize=5&language=en&apiKey=secret''"
  by (simp add: request_url_def MAX_ARTICLES_def fresh_state_def str_int_def py_def)

lemma pipeline_fixtures [simp]:
  "pipeline failing_env tr a b c = Inl (LibraryError 1)"
  "pipeline (answering code parsed) = pipeline failing_env"
  "pipeline (constructing e) tr a b c = Inr (Summarizer 0)"
  "pipeline (summarizing e) tr a b c = Inr (Summarizer 0)"
  by (simp_all add: failing_env_def answering_def constructing_def summarizing_def)

lemma invoke_fixtures [simp]:
  "invoke failing_env tr h t mx mn smp = Inl (LibraryError 2)"
  "invoke (answering code parsed) = invoke failing_env"
  "invoke (constructing e) = invoke e"
  "invoke (summarizing e) tr h t mx mn smp =
     Inr (PList [PDict [(py ''summary_text'', PStr (py ''A summary.''))]])"
  by (simp_all add: failing_env_def answering_def constructing_def summarizing_def)

lemma get_summarizer_fresh:
  "get_summarizer e fresh_state =
     (case pipeline e [] (py ''summarization'') (py ''facebook/bart-large-cnn'') (py ''pt'') of
        Inl x \<Rightarrow> (Inl x, fresh_state\<lparr>trace :=
            [PipelineLoad (py ''summarization'') (py ''facebook/bart-large-cnn'') (py ''pt'')]\<rparr>)
      | Inr h \<Rightarrow> (Inr h, fresh_state\<lparr>trace :=
            [PipelineLoad (py ''summarization'') (py ''facebook/bart-large-cnn'') (py ''pt'')],
            summarizer_global := Some h\<rparr>))"
  by (simp add: get_summarizer_def fresh_state_def Let_def split: sum.splits)

lemma get_summarizer_unloaded:
  "summarizer_global st = None \<Longrightarrow>
   get_summarizer e st =
     (case pipeline e (trace st) (py ''summarization'') (py ''facebook/bart-large-cnn'') (py ''pt'') of
        Inl x \<Rightarrow> (Inl x, st\<lparr>trace := trace st @
            [PipelineLoad (py ''summarization'') (py ''facebook/bart-large-cnn'') (py ''pt'')]\<rparr>)
      | Inr h \<Rightarrow> (Inr h, st\<lparr>trace := trace st @
            [PipelineLoad (py ''summarization'') (py ''facebook/bart-large-cnn'') (py ''pt'')],
            summarizer_global := Some h\<rparr>))"
  by (simp add: get_summarizer_def Let_def split: sum.splits)

lemma summarize_long_text_40:
  assumes "summarizer_global st = None"
  shows "fst (summarize_article (constructing (answering code parsed)) (PStr (long_text 40)) st) =
           Inr (PStr processing_limits)"
    and "fst (summarize_article (answering code parsed) (PStr (long_text 40)) st) =
           Inl (LibraryError 1)"
  using assms
  by (simp_all add: summarize_article_long split_long_text summarize_long_def Let_def
      get_summarizer_unloaded run_summarizer_def)

lemma fetch_long_text_40:
  assumes "requests_get e (trace fresh_state) (request_url q n (API_KEY fresh_state)) 10 =
             Response code (Inr (ok_body [raw_article t (long_text 40)]))"
  shows "fetch_articles e q n fresh_state =
           (Inr [normalized t (long_text 40)],
            fresh_state\<lparr>trace := trace fresh_state @
              [HttpGet (request_url q n (API_KEY fresh_state)) 10]\<rparr>)"
proof -
  have "long_text 40 \<noteq> []"
    by (simp add: long_text_nonempty)
  from fetch_raws [OF this, of e fresh_state q n code "[t]"] assms show ?thesis by simp
qed

lemma digest_long_text_40:
  "fst (generate_news_digest
         (constructing (answering code (Inr (ok_body [raw_article t (long_text 40)]))))
         q fresh_state) = Inr [entry_with t processing_limits]"
  "fst (generate_news_digest
         (answering code (Inr (ok_body [raw_article t (long_text 40)])))
         q fresh_state) = Inl (LibraryError 1)"
proof -
  let ?a = "answering code (Inr (ok_body [raw_article t (long_text 40)]))"
  let ?st1 = "fresh_state\<lparr>trace := trace fresh_state @
              [HttpGet (request_url q MAX_ARTICLES (API_KEY fresh_state)) 10]\<rparr>"
  have g: "summarizer_global ?st1 = None"
    by (simp add: fresh_state_def)
  obtain r st2 where s1: "summarize_article (constructing ?a) (PStr (long_text 40)) ?st1 = (r, st2)"
    by (rule prod.exhaust)
  with summarize_long_text_40(1) [OF g, of code "Inr (ok_body [raw_article t (long_text 40)])"]
  have r: "r = Inr (PStr processing_limits)"
    by simp
  show "fst (generate_news_digest (constructing ?a) q fresh_state) =
           Inr [entry_with t processing_limits]"
    using s1 r
    by (simp add: generate_news_digest_def fetch_long_text_40 normalized_def entry_with_def
        explain_importance_def)
  obtain r' st3 where s2: "summarize_article ?a (PStr (long_text 40)) ?st1 = (r', st3)"
    by (rule prod.exhaust)
  with summarize_long_text_40(2) [OF g, of code "Inr (ok_body [raw_article t (long_text 40)])"]
  have r': "r' = Inl (LibraryError 1)"
    by simp
  show "fst (generate_news_digest ?a q fresh_state) = Inl (LibraryError 1)"
    using s2 r'
    by (simp add: generate_news_digest_def fetch_long_text_40 normalized_def)
qed

lemma long_text_add: "long_text (k + m) = long_text k @ long_text m"
  by (simp add: long_text_def replicate_add)

lemma take_long_text: "take (5 * k) (long_text (k + m)) = long_text k"
  by (simp add: long_text_add length_long_text)

lemma summarize_long_text_loaded:
  "summarizer_global st = Some h \<Longrightarrow>
   summarize_article (summarizing e) (PStr (long_text 40)) st =
     (Inr (PStr (py ''A summary.'')),
      st\<lparr>trace := trace st @ [SummarizerCall h (long_text 40) 120 40 False]\<rparr>)"
  by (simp add: summarize_article_long split_long_text summarize_long_def Let_def
      get_summarizer_def run_summarizer_def length_long_text)

lemma summarize_long_text_unloaded:
  "summarizer_global st = None \<Longrightarrow>
   summarize_article (summarizing e) (PStr (long_text 40)) st =
     (Inr (PStr (py ''A summary.'')),
      st\<lparr>trace := trace st @
           [PipelineLoad (py ''summarization'') (py ''facebook/bart-large-cnn'') (py ''pt''),
            SummarizerCall (Summarizer 0) (long_text 40) 120 40 False],
         summarizer_global := Some (Summarizer 0)\<rparr>)"
  by (simp add: summarize_article_long split_long_text summarize_long_def Let_def
      get_summarizer_unloaded run_summarizer_def length_long_text)

lemma digest_loop_long_loaded:
  "summarizer_global st = Some h \<Longrightarrow>
   digest_loop (summarizing e) (map (\<lambda>t. normalized t (long_text 40)) ts) acc st =
     (Inr (acc @ map (\<lambda>t. entry_with t (py ''A summary.'')) ts),
      st\<lparr>trace := trace st @
           replicate (length ts) (SummarizerCall h (long_text 40) 120 40 False)\<rparr>)"
proof (induction ts arbitrary: acc st)
  case Nil
  then show ?case by simp
next
  case (Cons t ts)
  let ?st1 = "st\<lparr>trace := trace st @ [SummarizerCall h (long_text 40) 120 40 False]\<rparr>"
  from Cons.prems have "summarizer_global ?st1 = Some h" by simp
  from Cons.IH [OF this] Cons.prems show ?case
    by (simp add: summarize_long_text_loaded normalized_def entry_with_def
        explain_importance_def)
qed

lemma digest_loop_long_unloaded:
  assumes "summarizer_global st = None"
  shows "digest_loop (summarizing e) (map (\<lambda>t. normalized t (long_text 40)) (t # ts)) [] st =
     (Inr (map (\<lambda>t. entry_with t (py ''A summary.'')) (t # ts)),
      st\<lparr>trace := trace st @
           PipelineLoad (py ''summarization'') (py ''facebook/bart-large-cnn'') (py ''pt'') #
           replicate (Suc (length ts)) (SummarizerCall (Summarizer 0) (long_text 40) 120 40 False),
         summarizer_global := Some (Summarizer 0)\<rparr>)"
proof -
  let ?st1 = "st\<lparr>trace := trace st @
           [PipelineLoad (py ''summarization'') (py ''facebook/bart-large-cnn'') (py ''pt''),
            SummarizerCall (Summarizer 0) (long_text 40) 120 40 False],
         summarizer_global := Some (Summarizer 0)\<rparr>"
  have "summarizer_global ?st1 = Some (Summarizer 0)" by simp
  from digest_loop_long_loaded [OF this] assms show ?thesis
    by (simp add: summarize_long_text_unloaded normalized_def entry_with_def
        explain_importance_def)
qed

section \<open>Start-up\<close>

text \<open>
  C9. If \<open>NEWS_API_KEY\<close> is absent or empty when the module reads it (line 16, after
  \<open>load_dotenv()\<close>), loading the module raises \<open>RuntimeError\<close>; a client that imports
  the module gets that exception and no external call has been made.
\<close>

theorem missing_api_key_is_fatal:
  assumes "load_dotenv e environ (py ''NEWS_API_KEY'') = None \<or>
           load_dotenv e environ (py ''NEWS_API_KEY'') = Some []"
  shows "load_module e environ = Inl RuntimeError \<and>
         import_and_digest e environ user_query = (Inl RuntimeError, [])"
  using assms by (auto simp: load_module_def import_and_digest_def)

theorem missing_api_key_is_fatal_witness:
  "load_dotenv failing_env Map.empty (py ''NEWS_API_KEY'') = None \<and>
   load_module failing_env Map.empty = Inl RuntimeError \<and>
   import_and_digest failing_env Map.empty (py ''iPhone 17 features'') = (Inl RuntimeError, [])"
  using missing_api_key_is_fatal [of failing_env Map.empty "py ''iPhone 17 features''"]
  by (simp add: failing_env_def)
section \<open>Fetching\<close>

text \<open>
  C2, as the code has it. \<open>fetch_articles\<close> never looks at the HTTP status code. When the
  endpoint answers with a status other than 200 and the body is not JSON, or is a JSON
  object whose \<open>status\<close> field is not \<open>"ok"\<close>, the result is the empty list, after a
  single request; and any other world that answers the same request with the same body
  under another status code (200 included) gives the same result.
\<close>

theorem non_200_result_decided_by_body:
  assumes "requests_get e (trace st) (request_url q n (API_KEY st)) 10 = Response code parsed"
  shows "(code \<noteq> 200 \<and>
            ((\<exists>x. parsed = Inl x) \<or>
             (\<exists>body. parsed = Inr (PDict body) \<and>
                get_default body (py ''status'') PNone \<noteq> PStr (py ''ok''))) \<longrightarrow>
          fetch_articles e q n st =
            (Inr [], st\<lparr>trace := trace st @ [HttpGet (request_url q n (API_KEY st)) 10]\<rparr>)) \<and>
         (\<forall>e' code'.
            requests_get e' (trace st) (request_url q n (API_KEY st)) 10 = Response code' parsed \<longrightarrow>
            fetch_articles e' q n st = fetch_articles e q n st)"
proof -
  have empty: "fetch_articles e q n st =
      (Inr [], st\<lparr>trace := trace st @ [HttpGet (request_url q n (API_KEY st)) 10]\<rparr>)"
    if "(\<exists>x. parsed = Inl x) \<or>
        (\<exists>body. parsed = Inr (PDict body) \<and>
           get_default body (py ''status'') PNone \<noteq> PStr (py ''ok''))"
    using that assms by (auto simp: fetch_articles_def Let_def process_body_def)
  have same: "fetch_articles e' q n st = fetch_articles e q n st"
    if "requests_get e' (trace st) (request_url q n (API_KEY st)) 10 = Response code' parsed"
    for e' code'
    using that assms by (simp add: fetch_articles_def Let_def)
  from empty same show ?thesis by blast
qed

theorem non_200_result_decided_by_body_witness:
  "requests_get (answering 401 (Inr (PDict error_fields))) (trace fresh_state)
     (request_url (py ''ai'') 5 (API_KEY fresh_state)) 10 = Response 401 (Inr (PDict error_fields)) \<and>
   (401 :: nat) \<noteq> 200 \<and>
   get_default error_fields (py ''status'') PNone \<noteq> PStr (py ''ok'') \<and>
   fetch_articles (answering 401 (Inr (PDict error_fields))) (py ''ai'') 5 fresh_state =
     (Inr [], fresh_state\<lparr>trace := trace fresh_state @
        [HttpGet (request_url (py ''ai'') 5 (API_KEY fresh_state)) 10]\<rparr>) \<and>
   requests_get (answering 200 (Inr (PDict error_fields))) (trace fresh_state)
     (request_url (py ''ai'') 5 (API_KEY fresh_state)) 10 = Response 200 (Inr (PDict error_fields)) \<and>
   fetch_articles (answering 200 (Inr (PDict error_fields))) (py ''ai'') 5 fresh_state =
     fetch_articles (answering 401 (Inr (PDict error_fields))) (py ''ai'') 5 fresh_state"
proof -
  have r: "requests_get (answering 401 (Inr (PDict error_fields))) (trace fresh_state)
     (request_url (py ''ai'') 5 (API_KEY fresh_state)) 10 = Response 401 (Inr (PDict error_fields))"
    by simp
  have s: "get_default error_fields (py ''status'') PNone \<noteq> PStr (py ''ok'')"
    by (simp add: error_fields_def get_default_def py_def)
  from non_200_result_decided_by_body [OF r] s show ?thesis by simp
qed

text \<open>
  The claim C2 as the specification states it fails: a response with status 500 whose
  body is a JSON object with status \<open>"ok"\<close> and one article yields that article.
\<close>

theorem non_200_with_ok_body_counterexample:
  "requests_get (answering 500 (Inr (ok_body [raw_article ''A'' (py ''Too short'')])))
     (trace fresh_state) (request_url (py ''ai'') 5 (API_KEY fresh_state)) 10 =
     Response 500 (Inr (ok_body [raw_article ''A'' (py ''Too short'')])) \<and>
   (500 :: nat) \<noteq> 200 \<and>
   fst (fetch_articles (answering 500 (Inr (ok_body [raw_article ''A'' (py ''Too short'')])))
         (py ''ai'') 5 fresh_state) = Inr [normalized ''A'' (py ''Too short'')] \<and>
   fst (fetch_articles (answering 500 (Inr (ok_body [raw_article ''A'' (py ''Too short'')])))
         (py ''ai'') 5 fresh_state) \<noteq> Inr []"
  by (simp add: fetch_response ok_body_def process_ok_body normalize_raw too_short_nonempty)

text \<open>
  C3. When the request raises, or the body is not JSON, or the body is a JSON object
  whose \<open>status\<close> field is not \<open>"ok"\<close> (under any HTTP status code), or the body is a
  JSON object without results, \<open>fetch_articles\<close> returns the empty list, and so does
  \<open>generate_news_digest\<close>; neither raises, and exactly one request has been made.
\<close>

theorem fetch_failure_gives_empty:
  assumes "yields_nothing (requests_get e (trace st) (request_url q n (API_KEY st)) 10)"
  shows "fetch_articles e q n st =
           (Inr [], st\<lparr>trace := trace st @ [HttpGet (request_url q n (API_KEY st)) 10]\<rparr>) \<and>
         (n = MAX_ARTICLES \<longrightarrow>
          generate_news_digest e q st =
           (Inr [], st\<lparr>trace := trace st @ [HttpGet (request_url q n (API_KEY st)) 10]\<rparr>))"
proof -
  let ?out = "requests_get e (trace st) (request_url q n (API_KEY st)) 10"
  let ?st1 = "st\<lparr>trace := trace st @ [HttpGet (request_url q n (API_KEY st)) 10]\<rparr>"
  have fetch: "fetch_articles e q n st = (Inr [], ?st1)"
  proof (cases ?out)
    case (RequestRaises x)
    then show ?thesis by (simp add: fetch_articles_def Let_def)
  next
    case (Response code parsed)
    show ?thesis
    proof (cases parsed)
      case (Inl x)
      with Response show ?thesis by (simp add: fetch_articles_def Let_def)
    next
      case (Inr data)
      with Response assms obtain body where data: "data = PDict body"
        by (cases data) simp_all
      from assms Response Inr data
      have "get_default body (py ''status'') PNone \<noteq> PStr (py ''ok'') \<or>
            get_default body (py ''articles'') (PList []) = PList []" by simp
      then have "process_body (PDict body) = Inr []"
        by (auto simp: process_body_def)
      with Response Inr data show ?thesis by (simp add: fetch_response)
    qed
  qed
  then have "n = MAX_ARTICLES \<longrightarrow> generate_news_digest e q st = (Inr [], ?st1)"
    by (auto simp: generate_news_digest_def)
  with fetch show ?thesis by simp
qed

theorem fetch_failure_gives_empty_witness:
  "yields_nothing (requests_get failing_env (trace fresh_state)
     (request_url (py ''ai'') MAX_ARTICLES (API_KEY fresh_state)) 10) \<and>
   generate_news_digest failing_env (py ''ai'') fresh_state =
     (Inr [], fresh_state\<lparr>trace := trace fresh_state @
        [HttpGet (request_url (py ''ai'') MAX_ARTICLES (API_KEY fresh_state)) 10]\<rparr>) \<and>
   yields_nothing (requests_get (answering 200 (Inr (PDict error_fields))) (trace fresh_state)
     (request_url (py ''ai'') MAX_ARTICLES (API_KEY fresh_state)) 10) \<and>
   generate_news_digest (answering 200 (Inr (PDict error_fields))) (py ''ai'') fresh_state =
     (Inr [], fresh_state\<lparr>trace := trace fresh_state @
        [HttpGet (request_url (py ''ai'') MAX_ARTICLES (API_KEY fresh_state)) 10]\<rparr>) \<and>
   yields_nothing (requests_get (answering 200 (Inr (ok_body []))) (trace fresh_state)
     (request_url (py ''ai'') MAX_ARTICLES (API_KEY fresh_state)) 10) \<and>
   generate_news_digest (answering 200 (Inr (ok_body []))) (py ''ai'') fresh_state =
     (Inr [], fresh_state\<lparr>trace := trace fresh_state @
        [HttpGet (request_url (py ''ai'') MAX_ARTICLES (API_KEY fresh_state)) 10]\<rparr>)"
proof -
  have a: "yields_nothing (requests_get failing_env (trace fresh_state)
     (request_url (py ''ai'') MAX_ARTICLES (API_KEY fresh_state)) 10)"
    by (simp add: failing_env_def)
  have b: "yields_nothing (requests_get (answering 200 (Inr (PDict error_fields)))
     (trace fresh_state) (request_url (py ''ai'') MAX_ARTICLES (API_KEY fresh_state)) 10)"
    by (simp add: error_fields_def get_default_def py_def)
  have c: "yields_nothing (requests_get (answering 200 (Inr (ok_body []))) (trace fresh_state)
     (request_url (py ''ai'') MAX_ARTICLES (API_KEY fresh_state)) 10)"
    by (simp add: ok_body_def)
  from a b c fetch_failure_gives_empty [OF a] fetch_failure_gives_empty [OF b]
    fetch_failure_gives_empty [OF c]
  show ?thesis by simp
qed

text \<open>
  C8. For a raw result whose \<open>source\<close> is an object (or is missing) and whose
  \<open>publishedAt\<close> is a string, normalization returns a record whose body text is the
  description when that is truthy (present and not empty) and the content otherwise,
  whose date is the first 10 characters of \<open>publishedAt\<close>, whose source is
  \<open>source.name\<close>, and whose title and url are copied; and the loop of
  \<open>fetch_articles\<close> normalizes the raw results one by one, in order.
\<close>

theorem normalization_fields:
  "(\<forall>src ts.
      get_default a (py ''source'') (PDict []) = PDict src \<and>
      get_default a (py ''publishedAt'') PNone = PStr ts \<longrightarrow>
      normalize_article (PDict a) =
        Inr \<lparr>art_title = get_default a (py ''title'') PNone,
             art_text = (if truthy (get_default a (py ''description'') PNone)
                         then get_default a (py ''description'') PNone
                         else get_default a (py ''content'') PNone),
             art_source = get_default src (py ''name'') PNone,
             art_date = PStr (take 10 ts),
             art_url = get_default a (py ''url'') PNone\<rparr>) \<and>
   (\<forall>items rs. normalize_loop items [] = Inr rs \<longrightarrow>
      list_all2 (\<lambda>raw r. normalize_article raw = Inr r) items rs)"
proof -
  have one: "normalize_article (PDict a) =
        Inr \<lparr>art_title = get_default a (py ''title'') PNone,
             art_text = (if truthy (get_default a (py ''description'') PNone)
                         then get_default a (py ''description'') PNone
                         else get_default a (py ''content'') PNone),
             art_source = get_default src (py ''name'') PNone,
             art_date = PStr (take 10 ts),
             art_url = get_default a (py ''url'') PNone\<rparr>"
    if "get_default a (py ''source'') (PDict []) = PDict src"
      and "get_default a (py ''publishedAt'') PNone = PStr ts" for src ts
    using that by (simp add: py_or_def Let_def)
  from one normalize_loop_pointwise show ?thesis by blast
qed

theorem normalization_fields_witness:
  "get_default (raw_fields ''A'' []) (py ''source'') (PDict []) =
     PDict [(py ''id'', PNone), (py ''name'', PStr (py ''BBC News''))] \<and>
   get_default (raw_fields ''A'' []) (py ''publishedAt'') PNone = PStr (py ''2025-10-01T08:30:00Z'') \<and>
   normalize_article (PDict (raw_fields ''A'' [])) =
     Inr \<lparr>art_title = PStr (py ''A''), art_text = PStr (py ''Full content''),
          art_source = PStr (py ''BBC News''), art_date = PStr (py ''2025-10-01''),
          art_url = PStr (py ''https://example.com/a'')\<rparr> \<and>
   normalize_article (PDict (raw_fields ''B'' (py ''Too short''))) =
     Inr \<lparr>art_title = PStr (py ''B''), art_text = PStr (py ''Too short''),
          art_source = PStr (py ''BBC News''), art_date = PStr (py ''2025-10-01''),
          art_url = PStr (py ''https://example.com/a'')\<rparr> \<and>
   normalize_loop [PDict (raw_fields ''A'' []), PDict (raw_fields ''B'' (py ''Too short''))] [] =
     Inr [normalized ''A'' (py ''Full content''), normalized ''B'' (py ''Too short'')] \<and>
   list_all2 (\<lambda>raw r. normalize_article raw = Inr r)
     [PDict (raw_fields ''A'' []), PDict (raw_fields ''B'' (py ''Too short''))]
     [normalized ''A'' (py ''Full content''), normalized ''B'' (py ''Too short'')]"
proof -
  have s: "get_default (raw_fields t d) (py ''source'') (PDict []) =
     PDict [(py ''id'', PNone), (py ''name'', PStr (py ''BBC News''))]" for t d
    by (simp add: raw_fields_def get_default_def py_def)
  have p: "get_default (raw_fields t d) (py ''publishedAt'') PNone =
     PStr (py ''2025-10-01T08:30:00Z'')" for t d
    by (simp add: raw_fields_def get_default_def py_def)
  have g: "get_default (raw_fields t d) (py ''title'') PNone = PStr (py t)"
    "get_default (raw_fields t d) (py ''description'') PNone = PStr d"
    "get_default (raw_fields t d) (py ''content'') PNone = PStr (py ''Full content'')"
    "get_default (raw_fields t d) (py ''url'') PNone = PStr (py ''https://example.com/a'')"
    "get_default [(py ''id'', PNone), (py ''name'', PStr (py ''BBC News''))] (py ''name'') PNone =
       PStr (py ''BBC News'')" for t d
    by (simp_all add: raw_fields_def get_default_def py_def)
  have t: "take 10 (py ''2025-10-01T08:30:00Z'') = py ''2025-10-01''"
    by (simp add: py_def)
  have n: "normalize_article (PDict (raw_fields t d)) =
     Inr \<lparr>art_title = PStr (py t), art_text = (if d \<noteq> [] then PStr d else PStr (py ''Full content'')),
          art_source = PStr (py ''BBC News''), art_date = PStr (py ''2025-10-01''),
          art_url = PStr (py ''https://example.com/a'')\<rparr>" for t d
  proof -
    from normalization_fields [of "raw_fields t d"] s [of t d] p [of t d]
    have "normalize_article (PDict (raw_fields t d)) =
        Inr \<lparr>art_title = get_default (raw_fields t d) (py ''title'') PNone,
             art_text = (if truthy (get_default (raw_fields t d) (py ''description'') PNone)
                         then get_default (raw_fields t d) (py ''description'') PNone
                         else get_default (raw_fields t d) (py ''content'') PNone),
             art_source = get_default [(py ''id'', PNone), (py ''name'', PStr (py ''BBC News''))]
                            (py ''name'') PNone,
             art_date = PStr (take 10 (py ''2025-10-01T08:30:00Z'')),
             art_url = get_default (raw_fields t d) (py ''url'') PNone\<rparr>"
      by blast
    then show ?thesis by (simp add: g t del: normalize_article.simps)
  qed
  have l: "normalize_loop [PDict (raw_fields ''A'' []), PDict (raw_fields ''B'' (py ''Too short''))] [] =
     Inr [normalized ''A'' (py ''Full content''), normalized ''B'' (py ''Too short'')]"
    by (simp add: n too_short_nonempty normalized_def del: normalize_article.simps)
  from normalization_fields [of "raw_fields ''A'' []"] l
  have "list_all2 (\<lambda>raw r. normalize_article raw = Inr r)
     [PDict (raw_fields ''A'' []), PDict (raw_fields ''B'' (py ''Too short''))]
     [normalized ''A'' (py ''Full content''), normalized ''B'' (py ''Too short'')]"
    by blast
  with s p n l show ?thesis by (simp add: too_short_nonempty del: normalize_article.simps)
qed

section \<open>Summarizing\<close>

text \<open>
  C4. A body text that is absent (\<open>None\<close>, the empty string, any falsy value) or a
  string of fewer than 40 words gets the insufficient-content placeholder and the state
  is left as it was: the summarizer is neither constructed nor invoked. A string of 40
  words or more does not take that branch: it enters lines 79--93, where the summarizer
  is constructed or invoked, so that the trace grows.
\<close>

theorem short_text_gets_placeholder:
  "((\<not> truthy text \<or> (\<exists>s. text = PStr s \<and> length (split s) < 40)) \<longrightarrow>
      summarize_article e text st = (Inr (PStr insufficient_content), st)) \<and>
   (\<forall>s. text = PStr s \<and> 40 \<le> length (split s) \<longrightarrow>
      summarize_article e text st = summarize_long e s st \<and>
      length (trace st) < length (trace (snd (summarize_article e text st))))"
proof -
  have falsy: "summarize_article e text st = (Inr (PStr insufficient_content), st)"
    if "\<not> truthy text"
    using that by (cases "text") (simp_all add: summarize_article_def)
  have few: "summarize_article e text st = (Inr (PStr insufficient_content), st)"
    if "text = PStr s" and "length (split s) < 40" for s
    using that by (simp add: summarize_article_def)
  have many: "summarize_article e text st = summarize_long e s st \<and>
      length (trace st) < length (trace (snd (summarize_article e text st)))"
    if t: "text = PStr s" and w: "40 \<le> length (split s)" for s
  proof -
    from t w have eq: "summarize_article e text st = summarize_long e s st"
      by (simp add: summarize_article_long)
    obtain r st1 where g: "get_summarizer e st = (r, st1)"
      by (cases "get_summarizer e st")
    from get_summarizer_trace [OF g] have le: "length (trace st) \<le> length (trace st1)"
      and lt: "summarizer_global st = None \<longrightarrow> length (trace st) < length (trace st1)"
      by simp_all
    have "length (trace st) < length (trace (snd (summarize_long e s st)))"
    proof (cases r)
      case (Inl x)
      with g have "summarizer_global st = None"
        by (auto simp: get_summarizer_def split: option.splits)
      with lt g Inl show ?thesis by (simp add: summarize_long_raises)
    next
      case (Inr h)
      with g le show ?thesis by (simp add: summarize_long_obtained)
    qed
    with eq show ?thesis by simp
  qed
  from falsy few many show ?thesis by blast
qed

theorem short_text_gets_placeholder_witness:
  "\<not> truthy PNone \<and>
   summarize_article failing_env PNone fresh_state = (Inr (PStr insufficient_content), fresh_state) \<and>
   length (split (py ''Too short'')) < 40 \<and>
   summarize_article failing_env (PStr (py ''Too short'')) fresh_state =
     (Inr (PStr insufficient_content), fresh_state) \<and>
   length (split (long_text 39)) < 40 \<and>
   summarize_article failing_env (PStr (long_text 39)) fresh_state =
     (Inr (PStr insufficient_content), fresh_state) \<and>
   40 \<le> length (split (long_text 40)) \<and>
   summarize_article failing_env (PStr (long_text 40)) fresh_state =
     summarize_long failing_env (long_text 40) fresh_state \<and>
   length (trace fresh_state) <
     length (trace (snd (summarize_article failing_env (PStr (long_text 40)) fresh_state)))"
proof -
  have a: "\<not> truthy PNone"
    by simp
  have b: "length (split (py ''Too short'')) < 40"
    by (simp add: two_words)
  have c: "length (split (long_text 39)) < 40"
    by (simp add: split_long_text)
  have d: "40 \<le> length (split (long_text 40))"
    by (simp add: split_long_text)
  from short_text_gets_placeholder [of PNone failing_env fresh_state] a
  have a': "summarize_article failing_env PNone fresh_state =
      (Inr (PStr insufficient_content), fresh_state)"
    by blast
  from short_text_gets_placeholder [of "PStr (py ''Too short'')" failing_env fresh_state] b
  have b': "summarize_article failing_env (PStr (py ''Too short'')) fresh_state =
      (Inr (PStr insufficient_content), fresh_state)"
    by blast
  from short_text_gets_placeholder [of "PStr (long_text 39)" failing_env fresh_state] c
  have c': "summarize_article failing_env (PStr (long_text 39)) fresh_state =
      (Inr (PStr insufficient_content), fresh_state)"
    by blast
  from short_text_gets_placeholder [of "PStr (long_text 40)" failing_env fresh_state] d
  have d': "summarize_article failing_env (PStr (long_text 40)) fresh_state =
      summarize_long failing_env (long_text 40) fresh_state \<and>
    length (trace fresh_state) <
      length (trace (snd (summarize_article failing_env (PStr (long_text 40)) fresh_state)))"
    by blast
  from a a' b b' c c' d d' show ?thesis
    by blast
qed

text \<open>
  C5. For a body text of at least 40 words, once the summarizer has been obtained, the
  summarizer is invoked exactly once, with the first 3000 characters of the text when
  the text has 3000 characters or more and with the whole text otherwise, and with the
  bounds 120 and 40 and no sampling; the summary returned is what lines 84--93 make of
  that invocation.
\<close>

theorem summarizer_gets_first_3000_characters:
  assumes "40 \<le> length (split s)"
      and "get_summarizer e st = (Inr h, st1)"
  shows "snd (summarize_article e (PStr s) st) =
           st1\<lparr>trace := trace st1 @
             [SummarizerCall h (if 3000 \<le> length s then take 3000 s else s) 120 40 False]\<rparr> \<and>
         fst (summarize_article e (PStr s) st) =
           Inr (fst (run_summarizer e h (if 3000 \<le> length s then take 3000 s else s) st1))"
proof -
  have passed: "take 3000 s = (if 3000 \<le> length s then take 3000 s else s)"
    by simp
  from assms have "summarize_article e (PStr s) st =
      (Inr (fst (run_summarizer e h (take 3000 s) st1)),
       st1\<lparr>trace := trace st1 @ [SummarizerCall h (take 3000 s) 120 40 False]\<rparr>)"
    by (simp add: summarize_article_long summarize_long_obtained)
  then show ?thesis
    unfolding passed [symmetric] by simp
qed

theorem summarizer_gets_first_3000_characters_witness:
  "40 \<le> length (split (long_text 700)) \<and>
   get_summarizer (summarizing failing_env) fresh_state =
     (Inr (Summarizer 0), snd (get_summarizer (summarizing failing_env) fresh_state)) \<and>
   length (long_text 700) = 3500 \<and>
   trace (snd (summarize_article (summarizing failing_env) (PStr (long_text 700)) fresh_state)) =
     [PipelineLoad (py ''summarization'') (py ''facebook/bart-large-cnn'') (py ''pt''),
      SummarizerCall (Summarizer 0) (long_text 600) 120 40 False] \<and>
   fst (summarize_article (summarizing failing_env) (PStr (long_text 700)) fresh_state) =
     Inr (PStr (py ''A summary.'')) \<and>
   40 \<le> length (split (long_text 40)) \<and>
   length (long_text 40) = 200 \<and>
   trace (snd (summarize_article (summarizing failing_env) (PStr (long_text 40)) fresh_state)) =
     [PipelineLoad (py ''summarization'') (py ''facebook/bart-large-cnn'') (py ''pt''),
      SummarizerCall (Summarizer 0) (long_text 40) 120 40 False]"
proof -
  let ?e = "summarizing failing_env"
  have g: "get_summarizer ?e fresh_state = (Inr (Summarizer 0), snd (get_summarizer ?e fresh_state))"
    by (simp add: get_summarizer_fresh)
  have tr: "trace (snd (get_summarizer ?e fresh_state)) =
      [PipelineLoad (py ''summarization'') (py ''facebook/bart-large-cnn'') (py ''pt'')]"
    by (simp add: get_summarizer_fresh)
  have w700: "40 \<le> length (split (long_text 700))" and w40: "40 \<le> length (split (long_text 40))"
    by (simp_all add: split_long_text)
  have t: "take 3000 (long_text 700) = long_text 600"
    using take_long_text [of 600 100] by simp
  have r: "fst (run_summarizer ?e (Summarizer 0) t st) = PStr (py ''A summary.'')" for t st
    by (simp add: run_summarizer_def Let_def)
  from summarizer_gets_first_3000_characters [OF w700 g]
    summarizer_gets_first_3000_characters [OF w40 g] g w700 w40
  show ?thesis
    by (simp add: length_long_text t tr r)
qed

text \<open>
  C1, as the code has it. The \<open>try\<close> block of \<open>summarize_article\<close> covers the
  invocation of the summarizer and the reading of \<open>[0]["summary_text"]\<close> from its
  result: when either fails, the processing-limits placeholder is returned and nothing
  is raised. Obtaining the summarizer (line 82) is outside the block: an exception raised
  while the pipeline is constructed leaves \<open>summarize_article\<close> as it is. Hence, when the
  summarizer is already there or its construction never fails, and every body text is a
  string or absent, \<open>generate_news_digest\<close> returns one entry for each article,
  whatever the invocations of the summarizer do.
\<close>

theorem summarizer_call_failure_gives_placeholder:
  "(\<forall>s h st1.
      40 \<le> length (split s) \<and> get_summarizer e st = (Inr h, st1) \<and>
      call_fails (invoke e (trace st1) h (take 3000 s) 120 40 False) \<longrightarrow>
      summarize_article e (PStr s) st =
        (Inr (PStr processing_limits),
         st1\<lparr>trace := trace st1 @ [SummarizerCall h (take 3000 s) 120 40 False]\<rparr>)) \<and>
   (\<forall>s x st1.
      40 \<le> length (split s) \<and> get_summarizer e st = (Inl x, st1) \<longrightarrow>
      summarize_article e (PStr s) st = (Inl x, st1)) \<and>
   (\<forall>articles st1.
      fetch_articles e q MAX_ARTICLES st = (Inr articles, st1) \<and>
      (summarizer_global st \<noteq> None \<or> pipeline_never_fails e) \<and>
      (\<forall>a \<in> set articles. summarizable (art_text a)) \<longrightarrow>
      (\<exists>digest st2. generate_news_digest e q st = (Inr digest, st2) \<and>
         length digest = length articles))"
proof -
  have caught: "summarize_article e (PStr s) st =
        (Inr (PStr processing_limits),
         st1\<lparr>trace := trace st1 @ [SummarizerCall h (take 3000 s) 120 40 False]\<rparr>)"
    if "40 \<le> length (split s)" and "get_summarizer e st = (Inr h, st1)"
      and "call_fails (invoke e (trace st1) h (take 3000 s) 120 40 False)" for s h st1
    using that
    by (simp add: summarize_article_long summarize_long_obtained run_summarizer_fails)
  have escapes: "summarize_article e (PStr s) st = (Inl x, st1)"
    if "40 \<le> length (split s)" and "get_summarizer e st = (Inl x, st1)" for s x st1
    using that by (simp add: summarize_article_long summarize_long_raises)
  have whole: "\<exists>digest st2. generate_news_digest e q st = (Inr digest, st2) \<and>
         length digest = length articles"
    if f: "fetch_articles e q MAX_ARTICLES st = (Inr articles, st1)"
      and av: "summarizer_global st \<noteq> None \<or> pipeline_never_fails e"
      and ok: "\<forall>a \<in> set articles. summarizable (art_text a)" for articles st1
  proof -
    from fetch_keeps_summarizer [OF f] av
    have "summarizer_global st1 \<noteq> None \<or> pipeline_never_fails e" by simp
    from digest_loop_returns [OF this ok, of "[]"] f show ?thesis
      by (simp add: generate_news_digest_def)
  qed
  from caught escapes whole show ?thesis by blast
qed

theorem summarizer_call_failure_gives_placeholder_witness:
  "40 \<le> length (split (long_text 40)) \<and>
   get_summarizer
     (constructing (answering 200 (Inr (ok_body [raw_article ''A'' (long_text 40)])))) fresh_state =
     (Inr (Summarizer 0),
      fresh_state\<lparr>trace :=
         [PipelineLoad (py ''summarization'') (py ''facebook/bart-large-cnn'') (py ''pt'')],
         summarizer_global := Some (Summarizer 0)\<rparr>) \<and>
   call_fails (invoke
     (constructing (answering 200 (Inr (ok_body [raw_article ''A'' (long_text 40)]))))
     [PipelineLoad (py ''summarization'') (py ''facebook/bart-large-cnn'') (py ''pt'')]
     (Summarizer 0) (take 3000 (long_text 40)) 120 40 False) \<and>
   fst (summarize_article
     (constructing (answering 200 (Inr (ok_body [raw_article ''A'' (long_text 40)]))))
     (PStr (long_text 40)) fresh_state) = Inr (PStr processing_limits) \<and>
   get_summarizer failing_env fresh_state =
     (Inl (LibraryError 1),
      fresh_state\<lparr>trace :=
         [PipelineLoad (py ''summarization'') (py ''facebook/bart-large-cnn'') (py ''pt'')]\<rparr>) \<and>
   fst (summarize_article failing_env (PStr (long_text 40)) fresh_state) = Inl (LibraryError 1) \<and>
   fetch_articles
     (constructing (answering 200 (Inr (ok_body [raw_article ''A'' (long_text 40)]))))
     (py ''ai'') MAX_ARTICLES fresh_state =
     (Inr [normalized ''A'' (long_text 40)],
      fresh_state\<lparr>trace := trace fresh_state @
        [HttpGet (request_url (py ''ai'') MAX_ARTICLES (API_KEY fresh_state)) 10]\<rparr>) \<and>
   pipeline_never_fails
     (constructing (answering 200 (Inr (ok_body [raw_article ''A'' (long_text 40)])))) \<and>
   summarizable (art_text (normalized ''A'' (long_text 40))) \<and>
   fst (generate_news_digest
     (constructing (answering 200 (Inr (ok_body [raw_article ''A'' (long_text 40)]))))
     (py ''ai'') fresh_state) = Inr [entry_with ''A'' processing_limits] \<and>
   length [entry_with ''A'' processing_limits] = length [normalized ''A'' (long_text 40)]"
proof -
  let ?a = "answering 200 (Inr (ok_body [raw_article ''A'' (long_text 40)]))"
  let ?e = "constructing ?a"
  let ?load = "PipelineLoad (py ''summarization'') (py ''facebook/bart-large-cnn'') (py ''pt'')"
  have w: "40 \<le> length (split (long_text 40))"
    by (simp add: split_long_text)
  have g: "get_summarizer ?e fresh_state =
     (Inr (Summarizer 0),
      fresh_state\<lparr>trace := [?load], summarizer_global := Some (Summarizer 0)\<rparr>)"
    by (simp add: get_summarizer_fresh)
  have c: "call_fails (invoke ?e
      (trace (fresh_state\<lparr>trace := [?load], summarizer_global := Some (Summarizer 0)\<rparr>))
      (Summarizer 0) (take 3000 (long_text 40)) 120 40 False)"
    by (simp add: call_fails_def)
  have g': "get_summarizer failing_env fresh_state =
     (Inl (LibraryError 1), fresh_state\<lparr>trace := [?load]\<rparr>)"
    by (simp add: get_summarizer_fresh)
  have f: "fetch_articles ?e (py ''ai'') MAX_ARTICLES fresh_state =
     (Inr [normalized ''A'' (long_text 40)],
      fresh_state\<lparr>trace := trace fresh_state @
        [HttpGet (request_url (py ''ai'') MAX_ARTICLES (API_KEY fresh_state)) 10]\<rparr>)"
    by (rule fetch_long_text_40) simp
  have p: "pipeline_never_fails ?e"
    by (simp add: pipeline_never_fails_def)
  have s: "summarizable (art_text (normalized ''A'' (long_text 40)))"
    by (simp add: normalized_def)
  have d: "fst (generate_news_digest ?e (py ''ai'') fresh_state) =
     Inr [entry_with ''A'' processing_limits]"
    by (rule digest_long_text_40(1))
  from summarizer_call_failure_gives_placeholder [of ?e fresh_state "py ''ai''"] w g c
  have caught: "summarize_article ?e (PStr (long_text 40)) fresh_state =
     (Inr (PStr processing_limits),
      (fresh_state\<lparr>trace := [?load], summarizer_global := Some (Summarizer 0)\<rparr>)
        \<lparr>trace := trace (fresh_state\<lparr>trace := [?load], summarizer_global := Some (Summarizer 0)\<rparr>) @
           [SummarizerCall (Summarizer 0) (take 3000 (long_text 40)) 120 40 False]\<rparr>)"
    by blast
  from summarizer_call_failure_gives_placeholder [of failing_env fresh_state "py ''ai''"] w g'
  have escapes: "summarize_article failing_env (PStr (long_text 40)) fresh_state =
     (Inl (LibraryError 1), fresh_state\<lparr>trace := [?load]\<rparr>)"
    by blast
  have c2: "call_fails (invoke ?e [?load] (Summarizer 0) (take 3000 (long_text 40)) 120 40 False)"
    using c by simp
  have c1: "fst (summarize_article ?e (PStr (long_text 40)) fresh_state) = Inr (PStr processing_limits)"
    using caught by simp
  have e1: "fst (summarize_article failing_env (PStr (long_text 40)) fresh_state) = Inl (LibraryError 1)"
    using escapes by simp
  have l: "length [entry_with ''A'' processing_limits] = length [normalized ''A'' (long_text 40)]"
    by simp
  from w g c2 c1 g' e1 f p s d l show ?thesis
    by blast
qed

text \<open>
  The claim C1 as the specification states it fails: with a body text of 40 words and a
  pipeline whose construction raises, \<open>summarize_article\<close> raises that exception instead
  of returning the placeholder, and \<open>generate_news_digest\<close> is aborted by it.
\<close>

theorem construction_failure_propagates_counterexample:
  "40 \<le> length (split (long_text 40)) \<and>
   fst (get_summarizer failing_env fresh_state) = Inl (LibraryError 1) \<and>
   fst (summarize_article failing_env (PStr (long_text 40)) fresh_state) = Inl (LibraryError 1) \<and>
   fst (summarize_article failing_env (PStr (long_text 40)) fresh_state) \<noteq>
     Inr (PStr processing_limits) \<and>
   fst (generate_news_digest
     (answering 200 (Inr (ok_body [raw_article ''A'' (long_text 40)])))
     (py ''ai'') fresh_state) = Inl (LibraryError 1)"
proof -
  have w: "40 \<le> length (split (long_text 40))"
    by (simp add: split_long_text)
  have g: "fst (get_summarizer failing_env fresh_state) = Inl (LibraryError 1)"
    by (simp add: get_summarizer_fresh)
  have s: "fst (summarize_article failing_env (PStr (long_text 40)) fresh_state) =
      Inl (LibraryError 1)"
    by (simp add: summarize_article_long split_long_text summarize_long_def Let_def
        get_summarizer_fresh)
  have d: "fst (generate_news_digest
     (answering 200 (Inr (ok_body [raw_article ''A'' (long_text 40)])))
     (py ''ai'') fresh_state) = Inl (LibraryError 1)"
    by (rule digest_long_text_40(2))
  from w g s d show ?thesis by simp
qed

section \<open>The digest\<close>

text \<open>
  C6. In the digest that \<open>generate_news_digest\<close> returns, the \<open>why_it_matters\<close> field
  of each entry is \<open>explain_importance\<close> of the title of the article it was made from,
  whatever the article's text, source, date and url; and for a title that is the string
  \<open>T\<close> that is the fixed sentence with \<open>T\<close> between the quotes.
\<close>

theorem why_it_matters_is_template:
  assumes "fetch_articles e q MAX_ARTICLES st = (Inr articles, st1)"
      and "generate_news_digest e q st = (Inr digest, st2)"
  shows "map why_it_matters digest = map (\<lambda>a. explain_importance e (art_title a)) articles \<and>
         explain_importance e (PStr T) =
           py ''This development around '' @ [0x27] @ T @ [0x27] @
           py '' may influence public opinion, market trends, or upcoming decisions related to this topic.''"
proof -
  have all: "list_all2 (\<lambda>a en. title en = art_title a \<and> source en = art_source a \<and>
                   date en = art_date a \<and> url en = art_url a \<and>
                   why_it_matters en = explain_importance e (art_title a)) articles digest"
    by (rule digest_of_fetch [OF assms])
  have w: "map why_it_matters digest = map (\<lambda>a. explain_importance e (art_title a)) articles"
    by (rule all2_map_eq) (rule list_all2_mono [OF all], simp)
  have t: "explain_importance e (PStr T) =
           py ''This development around '' @ [0x27] @ T @ [0x27] @
           py '' may influence public opinion, market trends, or upcoming decisions related to this topic.''"
    by (simp add: explain_importance_def py_def)
  from w t show ?thesis by simp
qed

theorem why_it_matters_is_template_witness:
  "fetch_articles (answering 200 (Inr (ok_body [raw_article ''A'' (py ''Too short''), raw_article ''B'' (py ''Too short'')]))) (py ''ai'') MAX_ARTICLES fresh_state =
     (Inr [normalized ''A'' (py ''Too short''), normalized ''B'' (py ''Too short'')],
      fresh_state\<lparr>trace := trace fresh_state @
        [HttpGet (request_url (py ''ai'') MAX_ARTICLES (API_KEY fresh_state)) 10]\<rparr>) \<and>
   generate_news_digest (answering 200 (Inr (ok_body [raw_article ''A'' (py ''Too short''), raw_article ''B'' (py ''Too short'')]))) (py ''ai'') fresh_state =
     (Inr [entry_with ''A'' insufficient_content, entry_with ''B'' insufficient_content],
      fresh_state\<lparr>trace := trace fresh_state @
        [HttpGet (request_url (py ''ai'') MAX_ARTICLES (API_KEY fresh_state)) 10]\<rparr>) \<and>
   map why_it_matters [entry_with ''A'' insufficient_content, entry_with ''B'' insufficient_content] =
     [py ''This development around 'A' may influence public opinion, market trends, or upcoming decisions related to this topic.'',
      py ''This development around 'B' may influence public opinion, market trends, or upcoming decisions related to this topic.'']"
proof -
  let ?e = "answering 200 (Inr (ok_body [raw_article ''A'' (py ''Too short''), raw_article ''B'' (py ''Too short'')]))"
  let ?ts = "[''A'', ''B'']"
  have r: "requests_get ?e (trace fresh_state)
     (request_url (py ''ai'') MAX_ARTICLES (API_KEY fresh_state)) 10 =
     Response 200 (Inr (ok_body [raw_article ''A'' (py ''Too short''), raw_article ''B'' (py ''Too short'')]))"
    by simp
  have f: "fetch_articles ?e (py ''ai'') MAX_ARTICLES fresh_state =
     (Inr [normalized ''A'' (py ''Too short''), normalized ''B'' (py ''Too short'')],
      fresh_state\<lparr>trace := trace fresh_state @
        [HttpGet (request_url (py ''ai'') MAX_ARTICLES (API_KEY fresh_state)) 10]\<rparr>)"
    using fetch_raws [OF too_short_nonempty, of ?e fresh_state "py ''ai''" MAX_ARTICLES 200 ?ts] r
    by simp
  have g: "generate_news_digest ?e (py ''ai'') fresh_state =
     (Inr [entry_with ''A'' insufficient_content, entry_with ''B'' insufficient_content],
      fresh_state\<lparr>trace := trace fresh_state @
        [HttpGet (request_url (py ''ai'') MAX_ARTICLES (API_KEY fresh_state)) 10]\<rparr>)"
    using digest_raws_short [of ?e fresh_state "py ''ai''" 200 ?ts] r
    by simp
  have t: "explain_importance ?e (PStr (py ''A'')) =
      py ''This development around 'A' may influence public opinion, market trends, or upcoming decisions related to this topic.''"
    "explain_importance ?e (PStr (py ''B'')) =
      py ''This development around 'B' may influence public opinion, market trends, or upcoming decisions related to this topic.''"
    using why_it_matters_is_template [OF f g, of "py ''A''"]
      why_it_matters_is_template [OF f g, of "py ''B''"]
    by (simp_all add: py_def)
  from why_it_matters_is_template [OF f g, of "[]"]
  have "map why_it_matters [entry_with ''A'' insufficient_content, entry_with ''B'' insufficient_content] =
     [explain_importance ?e (PStr (py ''A'')), explain_importance ?e (PStr (py ''B''))]"
    by (simp add: normalized_def)
  with f g t show ?thesis by (simp only:)
qed

text \<open>
  C7. The digest that \<open>generate_news_digest\<close> returns has one entry for each article
  that \<open>fetch_articles\<close> returned, in the same order, and the title, source, date and
  url of each entry are those of its article.
\<close>

theorem digest_one_entry_per_article:
  assumes "fetch_articles e q MAX_ARTICLES st = (Inr articles, st1)"
      and "generate_news_digest e q st = (Inr digest, st2)"
  shows "length digest = length articles \<and>
         map title digest = map art_title articles \<and>
         map source digest = map art_source articles \<and>
         map date digest = map art_date articles \<and>
         map url digest = map art_url articles"
proof -
  have all: "list_all2 (\<lambda>a en. title en = art_title a \<and> source en = art_source a \<and>
                   date en = art_date a \<and> url en = art_url a \<and>
                   why_it_matters en = explain_importance e (art_title a)) articles digest"
    by (rule digest_of_fetch [OF assms])
  have len: "length digest = length articles"
    using all by (simp add: list_all2_lengthD)
  have t: "map title digest = map art_title articles"
    by (rule all2_map_eq) (rule list_all2_mono [OF all], simp)
  have s: "map source digest = map art_source articles"
    by (rule all2_map_eq) (rule list_all2_mono [OF all], simp)
  have d: "map date digest = map art_date articles"
    by (rule all2_map_eq) (rule list_all2_mono [OF all], simp)
  have u: "map url digest = map art_url articles"
    by (rule all2_map_eq) (rule list_all2_mono [OF all], simp)
  from len t s d u show ?thesis by simp
qed

theorem digest_one_entry_per_article_witness:
  "fetch_articles (answering 200 (Inr (ok_body [raw_article ''B'' (py ''Too short''), raw_article ''A'' (py ''Too short'')]))) (py ''ai'') MAX_ARTICLES fresh_state =
     (Inr [normalized ''B'' (py ''Too short''), normalized ''A'' (py ''Too short'')],
      fresh_state\<lparr>trace := trace fresh_state @
        [HttpGet (request_url (py ''ai'') MAX_ARTICLES (API_KEY fresh_state)) 10]\<rparr>) \<and>
   generate_news_digest (answering 200 (Inr (ok_body [raw_article ''B'' (py ''Too short''), raw_article ''A'' (py ''Too short'')]))) (py ''ai'') fresh_state =
     (Inr [entry_with ''B'' insufficient_content, entry_with ''A'' insufficient_content],
      fresh_state\<lparr>trace := trace fresh_state @
        [HttpGet (request_url (py ''ai'') MAX_ARTICLES (API_KEY fresh_state)) 10]\<rparr>) \<and>
   length [entry_with ''B'' insufficient_content, entry_with ''A'' insufficient_content] =
     length [normalized ''B'' (py ''Too short''), normalized ''A'' (py ''Too short'')] \<and>
   map title [entry_with ''B'' insufficient_content, entry_with ''A'' insufficient_content] =
     map art_title [normalized ''B'' (py ''Too short''), normalized ''A'' (py ''Too short'')] \<and>
   map source [entry_with ''B'' insufficient_content, entry_with ''A'' insufficient_content] =
     map art_source [normalized ''B'' (py ''Too short''), normalized ''A'' (py ''Too short'')] \<and>
   map date [entry_with ''B'' insufficient_content, entry_with ''A'' insufficient_content] =
     map art_date [normalized ''B'' (py ''Too short''), normalized ''A'' (py ''Too short'')] \<and>
   map url [entry_with ''B'' insufficient_content, entry_with ''A'' insufficient_content] =
     map art_url [normalized ''B'' (py ''Too short''), normalized ''A'' (py ''Too short'')] \<and>
   map title [entry_with ''B'' insufficient_content, entry_with ''A'' insufficient_content] =
     [PStr (py ''B''), PStr (py ''A'')]"
proof -
  let ?e = "answering 200 (Inr (ok_body [raw_article ''B'' (py ''Too short''), raw_article ''A'' (py ''Too short'')]))"
  let ?ts = "[''B'', ''A'']"
  have r: "requests_get ?e (trace fresh_state)
     (request_url (py ''ai'') MAX_ARTICLES (API_KEY fresh_state)) 10 =
     Response 200 (Inr (ok_body [raw_article ''B'' (py ''Too short''), raw_article ''A'' (py ''Too short'')]))"
    by simp
  have f: "fetch_articles ?e (py ''ai'') MAX_ARTICLES fresh_state =
     (Inr [normalized ''B'' (py ''Too short''), normalized ''A'' (py ''Too short'')],
      fresh_state\<lparr>trace := trace fresh_state @
        [HttpGet (request_url (py ''ai'') MAX_ARTICLES (API_KEY fresh_state)) 10]\<rparr>)"
    using fetch_raws [OF too_short_nonempty, of ?e fresh_state "py ''ai''" MAX_ARTICLES 200 ?ts] r
    by simp
  have g: "generate_news_digest ?e (py ''ai'') fresh_state =
     (Inr [entry_with ''B'' insufficient_content, entry_with ''A'' insufficient_content],
      fresh_state\<lparr>trace := trace fresh_state @
        [HttpGet (request_url (py ''ai'') MAX_ARTICLES (API_KEY fresh_state)) 10]\<rparr>)"
    using digest_raws_short [of ?e fresh_state "py ''ai''" 200 ?ts] r
    by simp
  have t: "map title [entry_with ''B'' insufficient_content, entry_with ''A'' insufficient_content] =
     [PStr (py ''B''), PStr (py ''A'')]"
    by (simp add: entry_with_def)
  from digest_one_entry_per_article [OF f g] f g t show ?thesis by (simp only:)
qed

section \<open>No truncation on the client side\<close>

text \<open>
  C10. \<open>max_results\<close> reaches the provider as the \<open>pageSize\<close> parameter of the request
  and is used nowhere else. Whatever the number of results in the body, also more than
  \<open>max_results\<close>, each of them is normalized, in order; and in the digest that
  \<open>generate_news_digest\<close>, which asks for \<open>MAX_ARTICLES\<close>, returns, there is one entry
  for each of them, in order, whose title, source, date, url and why-it-matters sentence
  are those of the normalized result and whose summary is what \<open>summarize_article\<close>
  returned for the body text of that result, called in the state that the summarization
  of the results before it had left.
\<close>

theorem no_client_side_truncation:
  assumes "requests_get e (trace st) (request_url q n (API_KEY st)) 10 =
             Response code (Inr (PDict body))"
      and "get_default body (py ''status'') PNone = PStr (py ''ok'')"
      and "get_default body (py ''articles'') (PList []) = PList items"
      and "fetch_articles e q n st = (Inr articles, st1)"
  shows "length articles = length items \<and>
         list_all2 (\<lambda>raw r. normalize_article raw = Inr r) items articles \<and>
         st1 = st\<lparr>trace := trace st @
                 [HttpGet (py ''https://newsapi.org/v2/everything?q='' @ q @ py ''&pageSize='' @
                           str_int n @ py ''&language=en&apiKey='' @ API_KEY st) 10]\<rparr> \<and>
         (\<forall>digest st2. n = MAX_ARTICLES \<and> generate_news_digest e q st = (Inr digest, st2) \<longrightarrow>
            length digest = length items \<and>
            list_all2 (\<lambda>a en. title en = art_title a \<and> source en = art_source a \<and>
                        date en = art_date a \<and> url en = art_url a \<and>
                        why_it_matters en = explain_importance e (art_title a)) articles digest \<and>
            (\<exists>states. length states = Suc (length items) \<and>
               states ! 0 = st1 \<and> states ! length items = st2 \<and>
               (\<forall>i < length items.
                  summarize_article e (art_text (articles ! i)) (states ! i) =
                    (Inr (summary (digest ! i)), states ! Suc i))))"
proof -
  have u: "request_url q n (API_KEY st) =
      py ''https://newsapi.org/v2/everything?q='' @ q @ py ''&pageSize='' @
      str_int n @ py ''&language=en&apiKey='' @ API_KEY st"
    by (simp add: request_url_def py_def)
  from assms have loop: "normalize_loop items [] = Inr articles"
    and st1: "st1 = st\<lparr>trace := trace st @ [HttpGet (request_url q n (API_KEY st)) 10]\<rparr>"
    by (simp_all add: fetch_response process_ok_body)
  from loop have all: "list_all2 (\<lambda>raw r. normalize_article raw = Inr r) items articles"
    by (rule normalize_loop_pointwise)
  then have len: "length articles = length items"
    by (simp add: list_all2_lengthD)
  have dig: "length digest = length items \<and>
            list_all2 (\<lambda>a en. title en = art_title a \<and> source en = art_source a \<and>
                        date en = art_date a \<and> url en = art_url a \<and>
                        why_it_matters en = explain_importance e (art_title a)) articles digest \<and>
            (\<exists>states. length states = Suc (length items) \<and>
               states ! 0 = st1 \<and> states ! length items = st2 \<and>
               (\<forall>i < length items.
                  summarize_article e (art_text (articles ! i)) (states ! i) =
                    (Inr (summary (digest ! i)), states ! Suc i)))"
    if n: "n = MAX_ARTICLES" and g: "generate_news_digest e q st = (Inr digest, st2)"
    for digest st2
  proof -
    from n assms(4) have f: "fetch_articles e q MAX_ARTICLES st = (Inr articles, st1)"
      by simp
    have fields: "list_all2 (\<lambda>a en. title en = art_title a \<and> source en = art_source a \<and>
                   date en = art_date a \<and> url en = art_url a \<and>
                   why_it_matters en = explain_importance e (art_title a)) articles digest"
      by (rule digest_of_fetch [OF f g])
    then have dl: "length digest = length items"
      using len by (simp add: list_all2_lengthD)
    from f g have "digest_loop e articles [] st1 = (Inr digest, st2)"
      by (simp add: generate_news_digest_def)
    from digest_loop_states [OF this] len
    have "\<exists>states. length states = Suc (length items) \<and>
               states ! 0 = st1 \<and> states ! length items = st2 \<and>
               (\<forall>i < length items.
                  summarize_article e (art_text (articles ! i)) (states ! i) =
                    (Inr (summary (digest ! i)), states ! Suc i))"
      by auto
    with dl fields show ?thesis by blast
  qed
  from len all st1 u dig show ?thesis by auto
qed

theorem no_client_side_truncation_witness:
  "requests_get (summarizing (answering 200 (Inr (ok_body six_raw)))) (trace fresh_state)
     (request_url (py ''ai'') MAX_ARTICLES (API_KEY fresh_state)) 10 =
     Response 200 (Inr (PDict (ok_fields six_raw))) \<and>
   get_default (ok_fields six_raw) (py ''status'') PNone = PStr (py ''ok'') \<and>
   get_default (ok_fields six_raw) (py ''articles'') (PList []) = PList six_raw \<and>
   fetch_articles (summarizing (answering 200 (Inr (ok_body six_raw)))) (py ''ai'') MAX_ARTICLES
       fresh_state =
     (Inr six_normalized,
      fresh_state\<lparr>trace :=
        [HttpGet (py ''https://newsapi.org/v2/everything?q=ai&pageSize=5&language=en&apiKey=secret'')
           10]\<rparr>) \<and>
   generate_news_digest (summarizing (answering 200 (Inr (ok_body six_raw)))) (py ''ai'')
       fresh_state =
     (Inr six_entries,
      fresh_state\<lparr>trace :=
        HttpGet (py ''https://newsapi.org/v2/everything?q=ai&pageSize=5&language=en&apiKey=secret'')
           10 #
        PipelineLoad (py ''summarization'') (py ''facebook/bart-large-cnn'') (py ''pt'') #
        replicate 6 (SummarizerCall (Summarizer 0) (long_text 40) 120 40 False),
        summarizer_global := Some (Summarizer 0)\<rparr>) \<and>
   MAX_ARTICLES < int (length six_raw) \<and>
   length six_normalized = length six_raw \<and>
   length six_entries = length six_raw \<and>
   length six_raw = 6 \<and>
   map art_text six_normalized = replicate 6 (PStr (long_text 40)) \<and>
   map summary six_entries = replicate 6 (PStr (py ''A summary.'')) \<and>
   map title six_entries =
     [PStr (py ''A''), PStr (py ''B''), PStr (py ''C''), PStr (py ''D''), PStr (py ''E''),
      PStr (py ''F'')] \<and>
   map title six_entries = map art_title six_normalized \<and>
   map url six_entries = map art_url six_normalized \<and>
   (\<exists>states. length states = Suc (length six_raw) \<and>
      states ! 0 = fresh_state\<lparr>trace :=
        [HttpGet (py ''https://newsapi.org/v2/everything?q=ai&pageSize=5&language=en&apiKey=secret'')
           10]\<rparr> \<and>
      states ! length six_raw = fresh_state\<lparr>trace :=
        HttpGet (py ''https://newsapi.org/v2/everything?q=ai&pageSize=5&language=en&apiKey=secret'')
           10 #
        PipelineLoad (py ''summarization'') (py ''facebook/bart-large-cnn'') (py ''pt'') #
        replicate 6 (SummarizerCall (Summarizer 0) (long_text 40) 120 40 False),
        summarizer_global := Some (Summarizer 0)\<rparr> \<and>
      (\<forall>i < length six_raw.
         summarize_article (summarizing (answering 200 (Inr (ok_body six_raw))))
           (art_text (six_normalized ! i)) (states ! i) =
           (Inr (summary (six_entries ! i)), states ! Suc i)))"
proof -
  let ?e = "summarizing (answering 200 (Inr (ok_body six_raw)))"
  let ?url = "py ''https://newsapi.org/v2/everything?q=ai&pageSize=5&language=en&apiKey=secret''"
  let ?st1 = "fresh_state\<lparr>trace := [HttpGet ?url 10]\<rparr>"
  let ?st2 = "fresh_state\<lparr>trace :=
        HttpGet ?url 10 #
        PipelineLoad (py ''summarization'') (py ''facebook/bart-large-cnn'') (py ''pt'') #
        replicate 6 (SummarizerCall (Summarizer 0) (long_text 40) 120 40 False),
        summarizer_global := Some (Summarizer 0)\<rparr>"
  have ne: "long_text 40 \<noteq> []"
    by (simp add: long_text_nonempty)
  have r: "requests_get ?e (trace fresh_state)
     (request_url (py ''ai'') MAX_ARTICLES (API_KEY fresh_state)) 10 =
     Response 200 (Inr (PDict (ok_fields six_raw)))"
    by (simp add: ok_body_def)
  have r': "requests_get ?e (trace fresh_state)
     (request_url (py ''ai'') MAX_ARTICLES (API_KEY fresh_state)) 10 =
     Response 200 (Inr (ok_body (map (\<lambda>t. raw_article t (long_text 40)) six_titles)))"
    by (simp add: six_raw_def)
  have tr: "fresh_state\<lparr>trace := trace fresh_state @
      [HttpGet (request_url (py ''ai'') MAX_ARTICLES (API_KEY fresh_state)) 10]\<rparr> = ?st1"
    by (simp add: url_ai) (simp add: fresh_state_def)
  have f: "fetch_articles ?e (py ''ai'') MAX_ARTICLES fresh_state = (Inr six_normalized, ?st1)"
    unfolding six_normalized_def tr [symmetric] by (rule fetch_raws [OF ne r'])
  have none: "summarizer_global ?st1 = None"
    by (simp add: fresh_state_def)
  have loop: "digest_loop ?e six_normalized [] ?st1 = (Inr six_entries, ?st2)"
    unfolding six_normalized_def six_entries_def six_titles_def
    using digest_loop_long_unloaded [OF none, of "answering 200 (Inr (ok_body six_raw))"
        "''A''" "[''B'', ''C'', ''D'', ''E'', ''F'']"]
    by (simp add: fresh_state_def numeral_eq_Suc)
  have g: "generate_news_digest ?e (py ''ai'') fresh_state = (Inr six_entries, ?st2)"
    by (simp add: generate_news_digest_def f loop)
  have more: "MAX_ARTICLES < int (length six_raw)" and six: "length six_raw = 6"
    by (simp_all add: MAX_ARTICLES_def six_raw_def six_titles_def)
  have texts: "map art_text six_normalized = replicate 6 (PStr (long_text 40))"
    by (simp add: six_normalized_def six_titles_def normalized_def numeral_eq_Suc)
  have sums: "map summary six_entries = replicate 6 (PStr (py ''A summary.''))"
    by (simp add: six_entries_def six_titles_def entry_with_def numeral_eq_Suc)
  have titles: "map title six_entries =
     [PStr (py ''A''), PStr (py ''B''), PStr (py ''C''), PStr (py ''D''), PStr (py ''E''),
      PStr (py ''F'')]"
    by (simp add: six_entries_def six_titles_def entry_with_def)
  have same: "map title six_entries = map art_title six_normalized"
    "map url six_entries = map art_url six_normalized"
    by (simp_all add: six_entries_def six_normalized_def entry_with_def normalized_def)
  from no_client_side_truncation [OF r ok_fields_get f] g
  have concl: "length six_normalized = length six_raw \<and>
      length six_entries = length six_raw \<and>
      (\<exists>states. length states = Suc (length six_raw) \<and>
        states ! 0 = ?st1 \<and> states ! length six_raw = ?st2 \<and>
        (\<forall>i < length six_raw.
           summarize_article ?e (art_text (six_normalized ! i)) (states ! i) =
             (Inr (summary (six_entries ! i)), states ! Suc i)))"
    by blast
  from r f g more six texts sums titles same concl show ?thesis
    by (simp only: ok_fields_get)
qed


end
